theory Spec2Isabelle
  imports Complex_Main "HOL-Library.Sublist"
begin

section \<open>Python strings\<close>

text \<open>
  A Python \<open>str\<close> is a sequence of Unicode code points; it is modelled as a list of
  natural numbers. \<open>ustr\<close> turns an ASCII literal of the program text into such a list.
\<close>

type_synonym pystr = "nat list"

definition ustr :: "string \<Rightarrow> pystr" where
  "ustr s = map of_char s"

definition newline :: nat where
  "newline = 0x0A"

text \<open>
  \<open>str.isspace\<close> for one character, as \<open>str.strip()\<close> uses it: the code points that
  CPython lists as white space (U+0009 to U+000D, U+001C to U+0020, U+0085, U+00A0,
  U+1680, U+2000 to U+200A, U+2028, U+2029, U+202F, U+205F, U+3000).
\<close>

definition is_space :: "nat \<Rightarrow> bool" where
  "is_space c =
     (c \<in> set [0x09, 0x0A, 0x0B, 0x0C, 0x0D, 0x1C, 0x1D, 0x1E, 0x1F, 0x20, 0x85, 0xA0,
               0x1680, 0x2000, 0x2001, 0x2002, 0x2003, 0x2004, 0x2005, 0x2006, 0x2007,
               0x2008, 0x2009, 0x200A, 0x2028, 0x2029, 0x202F, 0x205F, 0x3000])"

text \<open>\<open>s.strip()\<close>: drop leading and trailing white space.\<close>

definition py_strip :: "pystr \<Rightarrow> pystr" where
  "py_strip s = rev (dropWhile is_space (rev (dropWhile is_space s)))"

text \<open>\<open>s.startswith(tuple)\<close>: some member of the tuple is a prefix of \<open>s\<close>.\<close>

definition py_startswith :: "pystr \<Rightarrow> pystr list \<Rightarrow> bool" where
  "py_startswith s ps = list_ex (\<lambda>p. prefix p s) ps"

text \<open>\<open>sub in s\<close> on strings: \<open>sub\<close> occurs as a contiguous substring of \<open>s\<close>.\<close>

definition py_in :: "pystr \<Rightarrow> pystr \<Rightarrow> bool" where
  "py_in sub s = sublist sub s"

text \<open>
  Lower and upper case of one character, for the letters A to Z and a to z; every other
  character is left as it is. Python maps letters beyond ASCII too; no character beyond
  ASCII has \<open>e\<close>, \<open>r\<close> or \<open>o\<close> in its lower case, which is all that \<open>clear_kernel\<close> asks of
  \<open>lower()\<close>, and the stream names that \<open>capitalize()\<close> is applied to are \<open>stdout\<close> and
  \<open>stderr\<close>.
\<close>

definition lower_char :: "nat \<Rightarrow> nat" where
  "lower_char c = (if 0x41 \<le> c \<and> c \<le> 0x5A then c + 0x20 else c)"

definition upper_char :: "nat \<Rightarrow> nat" where
  "upper_char c = (if 0x61 \<le> c \<and> c \<le> 0x7A then c - 0x20 else c)"

text \<open>\<open>s.lower()\<close>.\<close>

definition py_lower :: "pystr \<Rightarrow> pystr" where
  "py_lower s = map lower_char s"

text \<open>\<open>s.capitalize()\<close>: first character upper case, the rest lower case.\<close>

fun py_capitalize :: "pystr \<Rightarrow> pystr" where
  "py_capitalize [] = []"
| "py_capitalize (c # cs) = upper_char c # map lower_char cs"

text \<open>\<open>sep.join(xs)\<close>.\<close>

fun py_join :: "pystr \<Rightarrow> pystr list \<Rightarrow> pystr" where
  "py_join sep [] = []"
| "py_join sep [x] = x"
| "py_join sep (x # y # ys) = x @ sep @ py_join sep (y # ys)"

text \<open>\<open>filter(None, xs)\<close> on a list of strings keeps the non-empty ones.\<close>

definition filter_none :: "pystr list \<Rightarrow> pystr list" where
  "filter_none xs = filter (\<lambda>x. x \<noteq> []) xs"

text \<open>\<open>str(n)\<close> for an integer: decimal digits, with a minus sign when negative.\<close>

fun str_nat :: "nat \<Rightarrow> pystr" where
  "str_nat n = (if n < 10 then [0x30 + n]
                else str_nat (n div 10) @ [0x30 + n mod 10])"

definition str_int :: "int \<Rightarrow> pystr" where
  "str_int i = (if i < 0 then 0x2D # str_nat (nat (- i)) else str_nat (nat i))"

text \<open>
  \<open>repr(s)\<close> for a string: single quotes unless the text holds a single quote and no
  double quote; the quote character and the backslash are escaped, tab, LF and CR are
  written \<open>\t\<close>, \<open>\n\<close>, \<open>\r\<close>, and the other ASCII control characters as \<open>\xhh\<close>.
  Characters beyond ASCII are copied (Python escapes those that are not printable).
\<close>

definition hex2 :: "nat \<Rightarrow> pystr" where
  "hex2 c = [ustr ''0123456789abcdef'' ! (c div 16), ustr ''0123456789abcdef'' ! (c mod 16)]"

definition repr_char :: "nat \<Rightarrow> nat \<Rightarrow> pystr" where
  "repr_char q c =
     (if c = q \<or> c = 0x5C then [0x5C, c]
      else if c = 0x09 then [0x5C, 0x74]
      else if c = 0x0A then [0x5C, 0x6E]
      else if c = 0x0D then [0x5C, 0x72]
      else if c < 0x20 \<or> c = 0x7F then [0x5C, 0x78] @ hex2 c
      else [c])"

definition repr_str :: "pystr \<Rightarrow> pystr" where
  "repr_str s =
     (let q = (if 0x27 \<in> set s \<and> 0x22 \<notin> set s then 0x22 else 0x27)
      in [q] @ concat (map (repr_char q) s) @ [q])"

text \<open>\<open>str(xs)\<close> for a list of strings, as an f-string renders \<open>list(data.keys())\<close>.\<close>

definition str_list :: "pystr list \<Rightarrow> pystr" where
  "str_list xs = ustr ''['' @ py_join (ustr '', '') (map repr_str xs) @ ustr '']''"

section \<open>HistoryManager\<close>

text \<open>
  The history file \<open>ipython_auto_history.py\<close>, as text:
  \<^item> \<open>opens\<close>: whether \<open>open\<close> in append mode succeeds;
  \<^item> \<open>write_ok t\<close>: whether writing the text \<open>t\<close> and closing the file succeed (the text
    can be encoded, the device takes it);
  \<^item> \<open>contents\<close>: the text of the file.

  When \<open>open\<close>, \<open>write\<close> or the closing of the file raises, the \<open>except Exception\<close> clause
  prints a warning and the text of the file is taken to stay as it was (a write that
  fails half way is not modelled).
\<close>

record history_file =
  opens :: bool
  write_ok :: "pystr \<Rightarrow> bool"
  contents :: pystr

text \<open>\<open>_ensure_history_file\<close>: opened in mode \<open>a+\<close>, the position is 0 exactly when the
  file is empty; then the header line is written.\<close>

definition history_header :: pystr where
  "history_header = ustr ''# Automatic IPython Command History'' @ [newline]"

definition ensure_history_file :: "history_file \<Rightarrow> history_file" where
  "ensure_history_file f =
     (if opens f then
        (if contents f = [] then
           (if write_ok f history_header then f\<lparr>contents := history_header\<rparr> else f)
         else f)
      else f)"

text \<open>\<open>save_command\<close>: \<open>if not command.startswith(('get_ipython', '%')) and command.strip()\<close>
  then \<open>f.write(f"{command}\n")\<close>.\<close>

definition save_command :: "pystr \<Rightarrow> history_file \<Rightarrow> history_file" where
  "save_command command f =
     (if opens f then
        (if \<not> py_startswith command [ustr ''get_ipython'', ustr ''%''] \<and> py_strip command \<noteq> []
         then (if write_ok f (command @ [newline])
               then f\<lparr>contents := contents f @ command @ [newline]\<rparr>
               else f)
         else f)
      else f)"

text \<open>The words of the specification of the history sink: blank input, and input that
  starts with a meta-command prefix.\<close>

definition whitespace_only :: "pystr \<Rightarrow> bool" where
  "whitespace_only s = list_all is_space s"

definition meta_prefixed :: "pystr \<Rightarrow> bool" where
  "meta_prefixed s = (prefix (ustr ''get_ipython'') s \<or> prefix (ustr ''%'') s)"

section \<open>Kernel messages\<close>

text \<open>
  A message of the kernel client is a dictionary with a header, a parent header and a
  content dictionary. The record keeps the entries that \<open>send_command\<close> reads. An entry
  read with \<open>d[k]\<close> or \<open>d.get(k)\<close> is an option: \<open>None\<close> is the absent key, which makes
  \<open>d[k]\<close> raise \<open>KeyError\<close> and \<open>d.get(k, default)\<close> return the default. The values are
  typed as the Jupyter messaging protocol types them. The entries \<open>name\<close> and \<open>text\<close> of
  a stream message are the fields \<open>stream_name\<close> and \<open>stream_text\<close>; \<open>data\<close> is the MIME
  bundle, in the order of its keys.
\<close>

record msg_content =
  status :: "pystr option"
  execution_count :: "int option"
  execution_state :: "pystr option"
  stream_name :: "pystr option"
  stream_text :: "pystr option"
  data :: "(pystr \<times> pystr) list option"
  ename :: "pystr option"
  evalue :: "pystr option"
  traceback :: "pystr list option"

record message =
  parent_msg_id :: "pystr option"
  msg_type :: pystr
  content :: msg_content

text \<open>The content dictionary without entries.\<close>

definition empty_content :: msg_content where
  "empty_content =
     \<lparr>status = None, execution_count = None, execution_state = None, stream_name = None,
      stream_text = None, data = None, ename = None, evalue = None, traceback = None\<rparr>"

text \<open>
  One call of \<open>kc.get_iopub_msg(timeout=...)\<close> or \<open>kc.get_shell_msg(timeout=...)\<close>: a
  message, \<open>queue.Empty\<close> when the timeout passes, or another exception with its text.
\<close>

datatype poll = Received message | Queue_Empty | Raised pystr

text \<open>\<open>str(KeyError(k))\<close> is \<open>repr(k)\<close>.\<close>

definition key_error :: "pystr \<Rightarrow> pystr" where
  "key_error k = repr_str k"

section \<open>The IOPub polling loop of send_command\<close>

text \<open>
  The variables of the loop: the list \<open>outputs\<close>, the flag
  \<open>kernel_reported_idle_for_request\<close>, and the number of \<open>asyncio.sleep(0.1)\<close> calls made
  so far. The \<open>ctx.info\<close>, \<open>ctx.warn\<close> and \<open>ctx.error\<close> log calls are not modelled.
\<close>

record loop_state =
  outputs :: "pystr list"
  kernel_reported_idle_for_request :: bool
  sleeps :: nat

definition iopub_timeout_duration :: real where
  "iopub_timeout_duration = 10"

definition timeout_marker :: pystr where
  "timeout_marker =
     (ustr ''  (Overall timeout waiting for all IOPub messages or kernel to go idle for this request)'')"

definition append_outputs :: "pystr list \<Rightarrow> loop_state \<Rightarrow> loop_state" where
  "append_outputs ls st = st\<lparr>outputs := outputs st @ ls\<rparr>"

text \<open>\<open>if tb: outputs.append(header); outputs.extend([f"    {line}" for line in tb])\<close>.\<close>

definition traceback_lines :: "pystr \<Rightarrow> pystr list \<Rightarrow> pystr list" where
  "traceback_lines header tb =
     (if tb \<noteq> [] then header # map (\<lambda>line. (ustr ''    '') @ line) tb else [])"

text \<open>\<open>d.get(k, default)\<close>.\<close>

definition get_default :: "'a option \<Rightarrow> 'a \<Rightarrow> 'a" where
  "get_default v d = (case v of None \<Rightarrow> d | Some x \<Rightarrow> x)"

text \<open>
  The branch for a message whose parent id is the request's (lines 149 to 176): the
  \<open>if\<close>/\<open>elif\<close> chain on \<open>msg_type\<close>. \<open>Inl e\<close> is an exception raised there, with its text.
\<close>

definition process_iopub :: "message \<Rightarrow> loop_state \<Rightarrow> pystr + loop_state" where
  "process_iopub m st =
     (if msg_type m = (ustr ''status'') then
        (case execution_state (content m) of
           None \<Rightarrow> Inl (key_error (ustr ''execution_state''))
         | Some exec_state \<Rightarrow>
             Inr ((append_outputs [(ustr ''  Kernel Status: '') @ exec_state] st)
                    \<lparr>kernel_reported_idle_for_request :=
                       (if exec_state = (ustr ''idle'') then True
                        else kernel_reported_idle_for_request st)\<rparr>))
      else if msg_type m = (ustr ''stream'') then
        (case stream_name (content m) of
           None \<Rightarrow> Inl (key_error (ustr ''name''))
         | Some n \<Rightarrow>
             (case stream_text (content m) of
                None \<Rightarrow> Inl (key_error (ustr ''text''))
              | Some t \<Rightarrow>
                  Inr (append_outputs [(ustr ''  '') @ py_capitalize n @ (ustr '': '') @ py_strip t] st)))
      else if msg_type m = (ustr ''execute_result'') then
        (let d = get_default (data (content m)) [];
             text_plain = get_default (map_of d (ustr ''text/plain'')) []
         in if text_plain \<noteq> [] then
              Inr (append_outputs [(ustr ''  Result: '') @ py_strip text_plain] st)
            else
              Inr (append_outputs
                [(ustr ''  Execute_Result (no text/plain, available data keys: '') @
                 (if d \<noteq> [] then str_list (map fst d) else (ustr ''data field missing or empty'')) @
                 (ustr '')'')] st))
      else if msg_type m = (ustr ''display_data'') then
        (case data (content m) of
           None \<Rightarrow> Inl (key_error (ustr ''data''))
         | Some d \<Rightarrow>
             Inr (append_outputs
               [(ustr ''  Display Data: '') @
                py_strip (get_default (map_of d (ustr ''text/plain'')) (ustr ''No plain text data''))] st))
      else if msg_type m = (ustr ''error'') then
        Inr (append_outputs
          ([(ustr ''  IOPub Error: '') @ get_default (ename (content m)) (ustr ''N/A'') @ (ustr '' - '') @
            get_default (evalue (content m)) (ustr ''N/A'')] @
           traceback_lines (ustr ''  IOPub Traceback:'') (get_default (traceback (content m)) [])) st)
      else Inr st)"

text \<open>
  One pass through the body of \<open>while True\<close>. \<open>elapsed\<close> is the double that line 139
  computes for \<open>time.monotonic() - iopub_start_time\<close> at the head of the pass, rounding
  included, read as the real number it denotes; the comparison with \<open>10.0\<close> is then the
  comparison of two doubles. \<open>p\<close> is what the poll of the pass gives, if the pass gets
  that far. The pass either breaks out of the loop or goes round again.
\<close>

datatype step = Continue loop_state | Break loop_state

definition iopub_step :: "pystr \<Rightarrow> loop_state \<Rightarrow> real \<Rightarrow> poll \<Rightarrow> step" where
  "iopub_step msg_id st elapsed p =
     (if elapsed > iopub_timeout_duration then
        Break (append_outputs [timeout_marker] st)
      else
        (case p of
           Received iopub_msg \<Rightarrow>
             (if parent_msg_id iopub_msg = Some msg_id then
                (case process_iopub iopub_msg st of
                   Inr st' \<Rightarrow> Continue st'
                 | Inl e \<Rightarrow>
                     Break (append_outputs [(ustr ''Exception while processing IOPub message: '') @ e] st))
              else Continue st)
         | Queue_Empty \<Rightarrow>
             (if kernel_reported_idle_for_request st then Break st
              else Continue (st\<lparr>sleeps := Suc (sleeps st)\<rparr>))
         | Raised e \<Rightarrow>
             Break (append_outputs [(ustr ''Exception while processing IOPub message: '') @ e] st)))"

text \<open>The variables as they are set before the loop (lines 128 and 136).\<close>

definition initial_state :: loop_state where
  "initial_state = \<lparr>outputs = [], kernel_reported_idle_for_request = False, sleeps = 0\<rparr>"

text \<open>
  The loop, run against the passes the environment offers: each is the elapsed time
  computed at its head and a poll result. \<open>None\<close> means that the loop has not left by
  the end of the list.
\<close>

fun iopub_loop :: "pystr \<Rightarrow> loop_state \<Rightarrow> (real \<times> poll) list \<Rightarrow> loop_state option" where
  "iopub_loop msg_id st [] = None"
| "iopub_loop msg_id st ((elapsed, p) # rest) =
     (case iopub_step msg_id st elapsed p of
        Break st' \<Rightarrow> Some st'
      | Continue st' \<Rightarrow> iopub_loop msg_id st' rest)"

section \<open>The shell reply\<close>

text \<open>
  Lines 195 to 221: \<open>outs\<close> is the list \<open>outputs\<close> as the loop left it and \<open>p\<close> is the single
  call of \<open>kc.get_shell_msg(timeout=10)\<close>. \<open>outputs.insert(0, x)\<close> puts \<open>x\<close> in front,
  \<open>outputs.append\<close> and \<open>outputs.extend\<close> add at the end.
\<close>

definition shell_phase :: "pystr \<Rightarrow> pystr list \<Rightarrow> poll \<Rightarrow> pystr list" where
  "shell_phase msg_id outs p =
     (case p of
        Received shell_reply \<Rightarrow>
          (if parent_msg_id shell_reply = Some msg_id then
             (case status (content shell_reply) of
                None \<Rightarrow>
                  (ustr ''Status: error_shell_reply_exception'') # outs @
                  [(ustr ''Exception while getting shell reply: '') @ key_error (ustr ''status'')]
              | Some shell_reply_status \<Rightarrow>
                  ((ustr ''Status: '') @ shell_reply_status) # outs @
                  (if shell_reply_status = (ustr ''error'') then
                     [(ustr ''  Shell Error Name: '') @ get_default (ename (content shell_reply)) (ustr ''N/A''),
                      (ustr ''  Shell Error Value: '') @ get_default (evalue (content shell_reply)) (ustr ''N/A'')] @
                     traceback_lines (ustr ''  Shell Traceback:'')
                       (get_default (traceback (content shell_reply)) [])
                   else if shell_reply_status = (ustr ''ok'') then
                     [(ustr ''  Execution Count: '') @
                      (case execution_count (content shell_reply) of
                         None \<Rightarrow> (ustr ''N/A'') | Some n \<Rightarrow> str_int n)]
                   else []))
           else
             (ustr ''Status: error_shell_reply_mismatch'') # outs @
             [(ustr ''Shell reply (msg_id '') @ get_default (parent_msg_id shell_reply) (ustr ''None'') @
              (ustr '') was not for the current command (msg_id '') @ msg_id @ (ustr '').'')])
      | Queue_Empty \<Rightarrow>
          (ustr ''Status: error_shell_reply_timeout'') # outs @
          [(ustr ''Timeout waiting for shell reply from IPython kernel.'')]
      | Raised e \<Rightarrow>
          (ustr ''Status: error_shell_reply_exception'') # outs @
          [(ustr ''Exception while getting shell reply: '') @ e])"

section \<open>send_command and clear_kernel\<close>

text \<open>
  What the kernel manager and the kernel client answer during one call:
  \<^item> \<open>kc_present\<close>: the global \<open>kc\<close> is set; \<open>km_alive\<close>: \<open>km\<close> is set and \<open>km.is_alive()\<close>;
  \<^item> \<open>start_outcome\<close>: what launching a kernel in \<open>start_ipython_kernel\<close> does;
  \<^item> \<open>channels_running\<close>: \<open>kc.channels_running\<close>; \<open>ready_after_channel_restart\<close>: whether
    \<open>kc.wait_for_ready(timeout=10)\<close> returns (otherwise it raises \<open>RuntimeError\<close>);
  \<^item> \<open>execute_msg_id\<close>: the id that \<open>kc.execute(command)\<close> returns;
  \<^item> \<open>iopub_passes\<close>: for each pass of the loop, the elapsed time that line 139 computes
    (a double) and the poll result;
  \<^item> \<open>shell_poll\<close>: the result of \<open>kc.get_shell_msg(timeout=10)\<close>.

  \<open>kc.start_channels()\<close> and \<open>kc.execute(command)\<close> stand outside every \<open>try\<close>; they
  are taken to return.
\<close>

datatype start_outcome = Started | Start_Raised pystr | Ready_Timeout

record kernel_env =
  kc_present :: bool
  km_alive :: bool
  start_outcome :: start_outcome
  channels_running :: bool
  ready_after_channel_restart :: bool
  execute_msg_id :: pystr
  iopub_passes :: "(real \<times> poll) list"
  shell_poll :: poll

text \<open>\<open>start_ipython_kernel\<close>: returns (\<open>None\<close>) or raises an exception with the given text.\<close>

definition start_ipython_kernel :: "kernel_env \<Rightarrow> pystr option" where
  "start_ipython_kernel env =
     (if km_alive env then None
      else (case start_outcome env of
              Started \<Rightarrow> None
            | Start_Raised e \<Rightarrow> Some e
            | Ready_Timeout \<Rightarrow> Some (ustr ''Failed to connect to IPython kernel in time.'')))"

text \<open>The state that outlives a call: whether \<open>send_command._history_manager\<close> exists,
  and the history file.\<close>

record server_state =
  has_history_manager :: bool
  history :: history_file

definition init_history_manager :: "server_state \<Rightarrow> server_state" where
  "init_history_manager s =
     (if \<not> has_history_manager s
      then s\<lparr>has_history_manager := True, history := ensure_history_file (history s)\<rparr>
      else s)"

text \<open>
  \<open>send_command\<close> returns the text and the new state, or \<open>None\<close> when the polling loop
  has not left within the passes of the environment.
\<close>

definition send_command :: "pystr \<Rightarrow> kernel_env \<Rightarrow> server_state \<Rightarrow> (pystr \<times> server_state) option" where
  "send_command command env s =
     (if \<not> kc_present env \<or> \<not> km_alive env then
        (case start_ipython_kernel env of
           None \<Rightarrow>
             Some ((ustr ''Error: IPython kernel was not running. It has been restarted. Please try your command again.''), s)
         | Some e \<Rightarrow>
             Some ((ustr ''Error: IPython kernel not available and failed to restart: '') @ e, s))
      else
        (let s1 = init_history_manager s;
             s2 = s1\<lparr>history := save_command command (history s1)\<rparr>
         in if \<not> channels_running env \<and> \<not> ready_after_channel_restart env then
              Some ((ustr ''Error: Failed to ensure kernel client readiness.''), s2)
            else
              (case iopub_loop (execute_msg_id env) initial_state (iopub_passes env) of
                 None \<Rightarrow> None
               | Some st \<Rightarrow>
                   Some (py_join [newline]
                           (filter_none (shell_phase (execute_msg_id env) (outputs st) (shell_poll env))),
                         s2))))"

text \<open>\<open>clear_kernel\<close>: runs \<open>%reset -f\<close> through \<open>send_command\<close> and words the summary.\<close>

definition clear_kernel :: "kernel_env \<Rightarrow> server_state \<Rightarrow> (pystr \<times> server_state) option" where
  "clear_kernel env s =
     (case send_command (ustr ''%reset -f'') env s of
        None \<Rightarrow> None
      | Some (reset_command_output, s') \<Rightarrow>
          Some ((if py_in (ustr ''Status: ok'') reset_command_output
                    \<and> \<not> py_in (ustr ''error'') (py_lower reset_command_output)
                 then (ustr ''IPython kernel environment cleared successfully.'') @ [newline] @
                      (ustr ''Details:'') @ [newline] @ reset_command_output
                 else (ustr ''IPython kernel clear command finished with potential issues.'') @ [newline] @
                      (ustr ''Details:'') @ [newline] @ reset_command_output), s'))"

section \<open>Notions of the specification\<close>

text \<open>The first line of a text: everything before the first line feed.\<close>

definition first_line :: "pystr \<Rightarrow> pystr" where
  "first_line t = takeWhile (\<lambda>c. c \<noteq> newline) t"

text \<open>The first line is exactly \<open>Status: ok\<close>, or begins with \<open>Status: error\<close>.\<close>

definition status_first_line :: "pystr \<Rightarrow> bool" where
  "status_first_line t =
     (first_line t = (ustr ''Status: ok'') \<or> prefix (ustr ''Status: error'') (first_line t))"

text \<open>A request is submitted when the worker is alive and the channels run, or run
  again after their restart.\<close>

definition submitted :: "kernel_env \<Rightarrow> bool" where
  "submitted env =
     (kc_present env \<and> km_alive env \<and>
      (channels_running env \<or> ready_after_channel_restart env))"

text \<open>The status entry of the shell reply, when a reply for this request was retrieved.\<close>

definition matched_reply_status :: "kernel_env \<Rightarrow> pystr option" where
  "matched_reply_status env =
     (case shell_poll env of
        Received r \<Rightarrow>
          (if parent_msg_id r = Some (execute_msg_id env) then status (content r) else None)
      | Queue_Empty \<Rightarrow> None
      | Raised e \<Rightarrow> None)"

text \<open>A pass of the loop that polls a message of another request (or of none): the
  overall timeout has not passed and the parent id is not the request's.\<close>

definition stale_pass :: "pystr \<Rightarrow> real \<times> poll \<Rightarrow> bool" where
  "stale_pass msg_id pass =
     (\<not> fst pass > iopub_timeout_duration \<and>
      (case snd pass of
         Received m \<Rightarrow> parent_msg_id m \<noteq> Some msg_id
       | Queue_Empty \<Rightarrow> False
       | Raised e \<Rightarrow> False))"

text \<open>The state a pass ends in, and the lines a pass adds when run on the empty list.\<close>

definition step_state :: "step \<Rightarrow> loop_state" where
  "step_state x = (case x of Break st \<Rightarrow> st | Continue st \<Rightarrow> st)"

definition pass_lines :: "pystr \<Rightarrow> real \<times> poll \<Rightarrow> pystr list" where
  "pass_lines msg_id pass =
     outputs (step_state (iopub_step msg_id initial_state (fst pass) (snd pass)))"

text \<open>A message that reports the idle state for the request \<open>msg_id\<close>.\<close>

definition idle_status_for :: "pystr \<Rightarrow> message \<Rightarrow> bool" where
  "idle_status_for msg_id m =
     (parent_msg_id m = Some msg_id \<and> msg_type m = (ustr ''status'') \<and>
      execution_state (content m) = Some (ustr ''idle''))"

text \<open>
  The passes that end the loop, in the words of the specification: the overall timeout
  has passed; or the poll is empty after the idle state was reported for the request;
  or the poll, or the handling of a message of the request, raises an exception. A pass
  reports the idle state when it polls the idle status message of the request.
\<close>

definition ends_loop :: "pystr \<Rightarrow> bool \<Rightarrow> real \<times> poll \<Rightarrow> bool" where
  "ends_loop msg_id idle_seen pass =
     (fst pass > iopub_timeout_duration \<or>
      (case snd pass of
         Received m \<Rightarrow> parent_msg_id m = Some msg_id \<and> isl (process_iopub m initial_state)
       | Queue_Empty \<Rightarrow> idle_seen
       | Raised e \<Rightarrow> True))"

definition reports_idle :: "pystr \<Rightarrow> real \<times> poll \<Rightarrow> bool" where
  "reports_idle msg_id pass =
     (case snd pass of
        Received m \<Rightarrow> idle_status_for msg_id m
      | Queue_Empty \<Rightarrow> False
      | Raised e \<Rightarrow> False)"

text \<open>The index of the first pass that ends the loop, if there is one.\<close>

fun exit_pass :: "pystr \<Rightarrow> bool \<Rightarrow> (real \<times> poll) list \<Rightarrow> nat option" where
  "exit_pass msg_id idle_seen [] = None"
| "exit_pass msg_id idle_seen (pass # rest) =
     (if ends_loop msg_id idle_seen pass then Some 0
      else map_option Suc
             (exit_pass msg_id (if reports_idle msg_id pass then True else idle_seen) rest))"

text \<open>
  The line that the shell reply puts in front of the list, and the lines it adds at the
  end: the head and the tail of what lines 195 to 221 make of the empty list.
\<close>

definition status_line :: "pystr \<Rightarrow> poll \<Rightarrow> pystr" where
  "status_line msg_id p = hd (shell_phase msg_id [] p)"

definition reply_lines :: "pystr \<Rightarrow> poll \<Rightarrow> pystr list" where
  "reply_lines msg_id p = tl (shell_phase msg_id [] p)"

text \<open>The two summary lines of \<open>clear_kernel\<close>.\<close>

definition success_summary :: pystr where
  "success_summary = (ustr ''IPython kernel environment cleared successfully.'')"

definition issues_summary :: pystr where
  "issues_summary = (ustr ''IPython kernel clear command finished with potential issues.'')"

section \<open>Literals\<close>

lemma ustr_Nil [simp]: "ustr [] = []"
  by (simp add: ustr_def)

lemma ustr_Cons [simp]: "ustr (c # cs) = of_char c # ustr cs"
  by (simp add: ustr_def)

section \<open>Properties of the history sink\<close>

lemma py_strip_Nil_iff: "py_strip s = [] \<longleftrightarrow> whitespace_only s"
proof
  assume "py_strip s = []"
  then have "dropWhile is_space (rev (dropWhile is_space s)) = []"
    by (simp add: py_strip_def)
  then have all: "list_all is_space (dropWhile is_space s)"
    by (simp add: list_all_iff)
  have "dropWhile is_space s = []"
  proof (cases "dropWhile is_space s")
    case Nil
    then show ?thesis .
  next
    case (Cons c cs)
    then have "\<not> is_space c"
      using hd_dropWhile [of is_space s] by simp
    with all Cons show ?thesis by simp
  qed
  then show "whitespace_only s"
    by (simp add: whitespace_only_def list_all_iff)
next
  assume "whitespace_only s"
  then have "dropWhile is_space s = []"
    by (simp add: whitespace_only_def list_all_iff)
  then have "py_strip s = rev (dropWhile is_space (rev []))"
    by (simp only: py_strip_def)
  then show "py_strip s = []"
    by simp
qed

lemma py_startswith_meta: "py_startswith s [(ustr ''get_ipython''), (ustr ''%'')] \<longleftrightarrow> meta_prefixed s"
  by (simp add: py_startswith_def meta_prefixed_def)

text \<open>When the file cannot be opened or the write fails, the exception is swallowed and
  the file stays.\<close>

lemma save_command_failure:
  "\<not> (opens f \<and> write_ok f (command @ [newline])) \<Longrightarrow> save_command command f = f"
  by (auto simp: save_command_def)

text \<open>
  Claim C8. On a history file that can be opened for appending and that takes the
  write, recording a command appends the raw command text followed by a line feed
  exactly when the command is not made of white space only (nor empty) and does not
  start with \<open>get_ipython\<close> or \<open>%\<close>; in every other case the text of the file stays as it
  was. White space is what \<open>str.strip()\<close> removes, Unicode white space included.
\<close>

theorem save_command_records_iff:
  assumes "opens f" and "write_ok f (command @ [newline])"
  shows "contents (save_command command f) =
           (if \<not> whitespace_only command \<and> \<not> meta_prefixed command
            then contents f @ command @ [newline] else contents f) \<and>
         (contents (save_command command f) \<noteq> contents f \<longleftrightarrow>
            \<not> whitespace_only command \<and> \<not> meta_prefixed command)"
  using assms py_startswith_meta [of command]
  by (auto simp: save_command_def py_strip_Nil_iff)

theorem save_command_records_iff_witness:
  "contents (save_command (ustr ''x = 1'') \<lparr>opens = True, write_ok = (\<lambda>t. True), contents = ustr ''# h''\<rparr>) =
     ustr ''# hx = 1'' @ [newline] \<and>
   contents (save_command (ustr ''%reset -f'') \<lparr>opens = True, write_ok = (\<lambda>t. True), contents = ustr ''# h''\<rparr>) =
     ustr ''# h'' \<and>
   contents (save_command [0x20, 0xA0, 0x3000] \<lparr>opens = True, write_ok = (\<lambda>t. True), contents = ustr ''# h''\<rparr>) =
     ustr ''# h''"
  using save_command_records_iff [of "\<lparr>opens = True, write_ok = (\<lambda>t. True), contents = ustr ''# h''\<rparr>" "ustr ''x = 1''"]
        save_command_records_iff [of "\<lparr>opens = True, write_ok = (\<lambda>t. True), contents = ustr ''# h''\<rparr>" "ustr ''%reset -f''"]
        save_command_records_iff [of "\<lparr>opens = True, write_ok = (\<lambda>t. True), contents = ustr ''# h''\<rparr>" "[0x20, 0xA0, 0x3000]"]
  by (simp add: whitespace_only_def meta_prefixed_def is_space_def)

section \<open>Properties of the polling loop\<close>

lemma iopub_step_stale:
  "stale_pass mid (elapsed, p) \<Longrightarrow> iopub_step mid st elapsed p = Continue st"
  by (cases p) (auto simp: stale_pass_def iopub_step_def)

lemma iopub_loop_filter_stale:
  "iopub_loop mid st (filter (\<lambda>pass. \<not> stale_pass mid pass) passes) =
   iopub_loop mid st passes"
proof (induction passes arbitrary: st)
  case Nil
  show ?case by simp
next
  case (Cons pass passes)
  obtain elapsed p where pass: "pass = (elapsed, p)" by (cases pass)
  show ?case
  proof (cases "stale_pass mid pass")
    case True
    then show ?thesis using Cons.IH pass by (simp add: iopub_step_stale)
  next
    case False
    then show ?thesis using Cons.IH pass by (simp split: step.splits)
  qed
qed

lemma process_iopub_outputs:
  "process_iopub m st = Inr st' \<Longrightarrow>
     \<exists>r. process_iopub m initial_state = Inr r \<and> outputs st' = outputs st @ outputs r"
  by (auto simp: process_iopub_def append_outputs_def initial_state_def Let_def
           split: if_splits option.splits)

lemma process_iopub_raises:
  "process_iopub m st = Inl e \<Longrightarrow> process_iopub m initial_state = Inl e"
  by (auto simp: process_iopub_def append_outputs_def initial_state_def Let_def
           split: if_splits option.splits)

lemma iopub_step_outputs:
  "outputs (step_state (iopub_step mid st elapsed p)) = outputs st @ pass_lines mid (elapsed, p)"
proof (cases "elapsed > iopub_timeout_duration")
  case True
  then show ?thesis
    by (simp add: iopub_step_def pass_lines_def step_state_def append_outputs_def initial_state_def)
next
  case False
  show ?thesis
  proof (cases p)
    case (Received m)
    show ?thesis
    proof (cases "parent_msg_id m = Some mid")
      case True
      show ?thesis
      proof (cases "process_iopub m st")
        case (Inl e)
        with process_iopub_raises [OF Inl] True False Received show ?thesis
          by (simp add: iopub_step_def pass_lines_def step_state_def append_outputs_def initial_state_def)
      next
        case (Inr st')
        from process_iopub_outputs [OF Inr] obtain r where
          "process_iopub m initial_state = Inr r" "outputs st' = outputs st @ outputs r" by blast
        with Inr True False Received show ?thesis
          by (simp add: iopub_step_def pass_lines_def step_state_def)
      qed
    next
      case nomatch: False
      with False Received show ?thesis
        by (simp add: iopub_step_def pass_lines_def step_state_def initial_state_def)
    qed
  next
    case Queue_Empty
    with False show ?thesis
      by (simp add: iopub_step_def pass_lines_def step_state_def initial_state_def)
  next
    case (Raised e)
    with False show ?thesis
      by (simp add: iopub_step_def pass_lines_def step_state_def append_outputs_def initial_state_def)
  qed
qed

text \<open>A loop that has left keeps its result when more passes are offered.\<close>

lemma iopub_loop_append:
  "iopub_loop mid st passes = Some st' \<Longrightarrow>
   iopub_loop mid st (passes @ extra) = Some st'"
proof (induction passes arbitrary: st)
  case Nil
  then show ?case by simp
next
  case (Cons pass passes)
  obtain elapsed p where pass: "pass = (elapsed, p)" by (cases pass)
  from Cons.prems Cons.IH pass show ?case
    by (cases "iopub_step mid st elapsed p") auto
qed

text \<open>A pass whose elapsed time is beyond the overall timeout ends the loop.\<close>

lemma iopub_step_timeout:
  "elapsed > iopub_timeout_duration \<Longrightarrow>
   iopub_step mid st elapsed p = Break (st\<lparr>outputs := outputs st @ [timeout_marker]\<rparr>)"
  by (simp add: iopub_step_def append_outputs_def)

lemma iopub_loop_timeout_pass:
  "i < length passes \<Longrightarrow> fst (passes ! i) > iopub_timeout_duration \<Longrightarrow>
   \<exists>st'. iopub_loop mid st (take (Suc i) passes) = Some st'"
proof (induction passes arbitrary: st i)
  case Nil
  then show ?case by simp
next
  case (Cons pass passes)
  obtain elapsed p where pass: "pass = (elapsed, p)" by (cases pass)
  show ?case
  proof (cases i)
    case 0
    with Cons.prems pass show ?thesis by (simp add: iopub_step_timeout)
  next
    case (Suc j)
    with Cons.prems have "j < length passes" "fst (passes ! j) > iopub_timeout_duration"
      by simp_all
    from Cons.IH [OF this] Suc pass show ?thesis
      by (cases "iopub_step mid st elapsed p") auto
  qed
qed

text \<open>If no pass before pass \<open>i\<close> leaves the loop and pass \<open>i\<close> is beyond the timeout,
  the last line of the result is the timeout marker.\<close>

lemma iopub_loop_timeout_marker:
  "i < length passes \<Longrightarrow> fst (passes ! i) > iopub_timeout_duration \<Longrightarrow>
   iopub_loop mid st (take i passes) = None \<Longrightarrow>
   \<exists>st'. iopub_loop mid st passes = Some st' \<and> last (outputs st') = timeout_marker"
proof (induction passes arbitrary: st i)
  case Nil
  then show ?case by simp
next
  case (Cons pass passes)
  obtain elapsed p where pass: "pass = (elapsed, p)" by (cases pass)
  show ?case
  proof (cases i)
    case 0
    with Cons.prems pass show ?thesis by (simp add: iopub_step_timeout)
  next
    case (Suc j)
    with Cons.prems have j: "j < length passes" "fst (passes ! j) > iopub_timeout_duration"
      by simp_all
    show ?thesis
    proof (cases "iopub_step mid st elapsed p")
      case (Break b)
      with Cons.prems(3) Suc pass show ?thesis by simp
    next
      case (Continue c)
      with Cons.prems(3) Suc pass have "iopub_loop mid c (take j passes) = None" by simp
      from Cons.IH [OF j this] Continue pass show ?thesis by simp
    qed
  qed
qed

lemma process_iopub_idle:
  assumes "process_iopub m st = Inr st'"
  shows "kernel_reported_idle_for_request st' \<longleftrightarrow>
           kernel_reported_idle_for_request st \<or>
           (msg_type m = (ustr ''status'') \<and> execution_state (content m) = Some (ustr ''idle''))"
proof (cases "msg_type m = (ustr ''status'')")
  case True
  with assms show ?thesis
    by (cases "execution_state (content m)") (auto simp: process_iopub_def append_outputs_def)
next
  case False
  have "kernel_reported_idle_for_request (append_outputs ls st) = kernel_reported_idle_for_request st" for ls
    by (simp add: append_outputs_def)
  with assms False show ?thesis
    unfolding process_iopub_def Let_def
    by (auto split: if_splits option.splits)
qed

subsection \<open>The pass that ends the loop\<close>

lemma process_iopub_isl: "isl (process_iopub m st) = isl (process_iopub m initial_state)"
proof (cases "process_iopub m st")
  case (Inl e)
  with process_iopub_raises [OF Inl] show ?thesis by simp
next
  case (Inr st')
  with process_iopub_outputs [OF Inr] show ?thesis by auto
qed

lemma iopub_step_Break_iff:
  "(\<exists>b. iopub_step mid st elapsed p = Break b) \<longleftrightarrow>
   ends_loop mid (kernel_reported_idle_for_request st) (elapsed, p)"
proof (cases "elapsed > iopub_timeout_duration")
  case True
  then show ?thesis by (simp add: iopub_step_def ends_loop_def)
next
  case False
  show ?thesis
  proof (cases p)
    case (Received m)
    show ?thesis
    proof (cases "parent_msg_id m = Some mid")
      case True
      with False Received process_iopub_isl [of m st] show ?thesis
        by (cases "process_iopub m st") (simp_all add: iopub_step_def ends_loop_def)
    next
      case nomatch: False
      with False Received show ?thesis by (simp add: iopub_step_def ends_loop_def)
    qed
  next
    case Queue_Empty
    with False show ?thesis by (simp add: iopub_step_def ends_loop_def)
  next
    case (Raised e)
    with False show ?thesis by (simp add: iopub_step_def ends_loop_def)
  qed
qed

lemma iopub_step_flag:
  assumes c: "iopub_step mid st elapsed p = Continue st'"
  shows "kernel_reported_idle_for_request st' \<longleftrightarrow>
           kernel_reported_idle_for_request st \<or> (\<exists>m. p = Received m \<and> idle_status_for mid m)"
proof -
  have nt: "\<not> elapsed > iopub_timeout_duration"
    using c by (auto simp: iopub_step_def)
  show ?thesis
  proof (cases p)
    case (Received m')
    show ?thesis
    proof (cases "parent_msg_id m' = Some mid")
      case True
      with c Received nt have "process_iopub m' st = Inr st'"
        by (simp add: iopub_step_def split: sum.splits)
      from process_iopub_idle [OF this] True Received show ?thesis
        by (simp add: idle_status_for_def)
    next
      case False
      with c Received nt show ?thesis
        by (simp add: iopub_step_def idle_status_for_def)
    qed
  next
    case Queue_Empty
    with c nt show ?thesis
      by (auto simp: iopub_step_def split: if_splits)
  next
    case (Raised e)
    with c nt show ?thesis
      by (simp add: iopub_step_def)
  qed
qed

lemma reports_idle_iff:
  "reports_idle mid (elapsed, p) \<longleftrightarrow> (\<exists>m. p = Received m \<and> idle_status_for mid m)"
  by (cases p) (simp_all add: reports_idle_def)

text \<open>The loop leaves at the first pass that ends it, with the lines of the passes up to
  and including that one; it does not leave when there is no such pass.\<close>

lemma iopub_loop_exit:
  "map_option outputs (iopub_loop mid st passes) =
   map_option (\<lambda>n. outputs st @ concat (map (pass_lines mid) (take (Suc n) passes)))
     (exit_pass mid (kernel_reported_idle_for_request st) passes)"
proof (induction passes arbitrary: st)
  case Nil
  show ?case by simp
next
  case (Cons pass passes)
  obtain elapsed p where pass: "pass = (elapsed, p)" by (cases pass)
  show ?case
  proof (cases "iopub_step mid st elapsed p")
    case (Break b)
    then have e: "ends_loop mid (kernel_reported_idle_for_request st) pass"
      using iopub_step_Break_iff [of mid st elapsed p] pass by auto
    from Break iopub_step_outputs [of mid st elapsed p] pass
    have "outputs b = outputs st @ pass_lines mid pass" by (simp add: step_state_def)
    with Break e pass show ?thesis by simp
  next
    case (Continue c)
    then have e: "\<not> ends_loop mid (kernel_reported_idle_for_request st) pass"
      using iopub_step_Break_iff [of mid st elapsed p] pass by auto
    from Continue iopub_step_outputs [of mid st elapsed p] pass
    have o: "outputs c = outputs st @ pass_lines mid pass" by (simp add: step_state_def)
    have f: "kernel_reported_idle_for_request c =
             (if reports_idle mid pass then True else kernel_reported_idle_for_request st)"
      using iopub_step_flag [OF Continue] reports_idle_iff [of mid elapsed p] pass by auto
    have "map_option outputs (iopub_loop mid st (pass # passes)) =
          map_option outputs (iopub_loop mid c passes)"
      using Continue pass by simp
    also have "\<dots> = map_option (\<lambda>n. outputs c @ concat (map (pass_lines mid) (take (Suc n) passes)))
                       (exit_pass mid (kernel_reported_idle_for_request c) passes)"
      by (rule Cons.IH)
    also have "\<dots> = map_option (\<lambda>n. outputs st @ concat (map (pass_lines mid) (take (Suc n) (pass # passes))))
                       (exit_pass mid (kernel_reported_idle_for_request st) (pass # passes))"
      using e f o by (simp add: option.map_comp o_def)
    finally show ?thesis .
  qed
qed

lemma iopub_loop_None_iff:
  "iopub_loop mid st passes = None \<longleftrightarrow>
   exit_pass mid (kernel_reported_idle_for_request st) passes = None"
  using iopub_loop_exit [of mid st passes]
  by (cases "iopub_loop mid st passes";
      cases "exit_pass mid (kernel_reported_idle_for_request st) passes") simp_all

lemma exit_pass_timeout:
  "i < length passes \<Longrightarrow> fst (passes ! i) > iopub_timeout_duration \<Longrightarrow>
   \<exists>n\<le>i. exit_pass mid idle passes = Some n"
proof (induction passes arbitrary: i idle)
  case Nil
  then show ?case by simp
next
  case (Cons pass passes)
  show ?case
  proof (cases "ends_loop mid idle pass")
    case True
    then show ?thesis by simp
  next
    case False
    then have "\<not> fst pass > iopub_timeout_duration" by (simp add: ends_loop_def)
    with Cons.prems have "i \<noteq> 0" by (cases i) auto
    then obtain j where j: "i = Suc j" by (cases i) auto
    with Cons.prems have "j < length passes" "fst (passes ! j) > iopub_timeout_duration"
      by simp_all
    from Cons.IH [OF this, of "if reports_idle mid pass then True else idle"]
    obtain n where "n \<le> j"
      "exit_pass mid (if reports_idle mid pass then True else idle) passes = Some n" by blast
    with False j show ?thesis by (intro exI [of _ "Suc n"]) simp
  qed
qed

lemma send_command_text:
  assumes "submitted env"
  shows "map_option fst (send_command command env s) =
         map_option (\<lambda>st. py_join [newline]
                       (filter_none (shell_phase (execute_msg_id env) (outputs st) (shell_poll env))))
           (iopub_loop (execute_msg_id env) initial_state (iopub_passes env))"
  using assms
  by (cases "iopub_loop (execute_msg_id env) initial_state (iopub_passes env)")
     (auto simp: send_command_def submitted_def Let_def)

subsection \<open>The claims about the loop\<close>

text \<open>
  Claim C2. A polled message whose parent id is not the id returned by \<open>kc.execute\<close>
  leaves the variables of the loop as they are and adds no line; the loop, and with it
  the text that \<open>send_command\<close> returns, is the same as if the passes that polled such
  messages had not taken place.
\<close>

theorem stale_messages_contribute_nothing:
  "(parent_msg_id m \<noteq> Some msg_id \<and> \<not> elapsed > iopub_timeout_duration \<longrightarrow>
      iopub_step msg_id st elapsed (Received m) = Continue st \<and>
      pass_lines msg_id (elapsed, Received m) = []) \<and>
   iopub_loop msg_id st (filter (\<lambda>pass. \<not> stale_pass msg_id pass) passes) =
     iopub_loop msg_id st passes \<and>
   send_command command
     (env\<lparr>iopub_passes :=
        filter (\<lambda>pass. \<not> stale_pass (execute_msg_id env) pass)
          (iopub_passes env)\<rparr>) s =
     send_command command env s"
proof (intro conjI impI)
  assume a: "parent_msg_id m \<noteq> Some msg_id \<and> \<not> elapsed > iopub_timeout_duration"
  then have stale: "stale_pass msg_id (elapsed, Received m)"
    by (simp add: stale_pass_def)
  then show "iopub_step msg_id st elapsed (Received m) = Continue st"
    by (rule iopub_step_stale)
  from stale show "pass_lines msg_id (elapsed, Received m) = []"
    by (simp add: pass_lines_def iopub_step_stale step_state_def initial_state_def)
next
  show "iopub_loop msg_id st (filter (\<lambda>pass. \<not> stale_pass msg_id pass) passes) =
     iopub_loop msg_id st passes"
    by (rule iopub_loop_filter_stale)
next
  let ?env = "env\<lparr>iopub_passes :=
        filter (\<lambda>pass. \<not> stale_pass (execute_msg_id env) pass)
          (iopub_passes env)\<rparr>"
  have l: "iopub_loop (execute_msg_id ?env) initial_state (iopub_passes ?env) =
           iopub_loop (execute_msg_id env) initial_state (iopub_passes env)"
    by (simp add: iopub_loop_filter_stale)
  have k: "start_ipython_kernel ?env = start_ipython_kernel env"
    by (simp add: start_ipython_kernel_def)
  show "send_command command ?env s = send_command command env s"
    unfolding send_command_def l k
    by (simp add: Let_def split: option.splits)
qed

theorem stale_messages_contribute_nothing_witness:
  "iopub_step (ustr ''m1'') initial_state 1
     (Received \<lparr>parent_msg_id = Some (ustr ''m0''), msg_type = (ustr ''stream''),
                content = empty_content\<lparr>stream_name := Some (ustr ''stdout''), stream_text := Some (ustr ''old'')\<rparr>\<rparr>)
     = Continue initial_state \<and>
   send_command (ustr ''x'')
     \<lparr>kc_present = True, km_alive = True, start_outcome = Started, channels_running = True,
      ready_after_channel_restart = True, execute_msg_id = (ustr ''m1''),
      iopub_passes = [(2, Raised (ustr ''closed''))], shell_poll = Queue_Empty\<rparr>
     \<lparr>has_history_manager = True, history = \<lparr>opens = True, write_ok = (\<lambda>t. True), contents = (ustr ''# h'')\<rparr>\<rparr> =
   send_command (ustr ''x'')
     \<lparr>kc_present = True, km_alive = True, start_outcome = Started, channels_running = True,
      ready_after_channel_restart = True, execute_msg_id = (ustr ''m1''),
      iopub_passes =
        [(1, Received \<lparr>parent_msg_id = Some (ustr ''m0''), msg_type = (ustr ''stream''),
                content = empty_content\<lparr>stream_name := Some (ustr ''stdout''), stream_text := Some (ustr ''old'')\<rparr>\<rparr>),
         (2, Raised (ustr ''closed''))],
      shell_poll = Queue_Empty\<rparr>
     \<lparr>has_history_manager = True, history = \<lparr>opens = True, write_ok = (\<lambda>t. True), contents = (ustr ''# h'')\<rparr>\<rparr>"
  using stale_messages_contribute_nothing
    [of "\<lparr>parent_msg_id = Some (ustr ''m0''), msg_type = (ustr ''stream''),
                content = empty_content\<lparr>stream_name := Some (ustr ''stdout''), stream_text := Some (ustr ''old'')\<rparr>\<rparr>"
        "(ustr ''m1'')" 1 initial_state "[]" "(ustr ''x'')"
        "\<lparr>kc_present = True, km_alive = True, start_outcome = Started, channels_running = True,
      ready_after_channel_restart = True, execute_msg_id = (ustr ''m1''),
      iopub_passes =
        [(1, Received \<lparr>parent_msg_id = Some (ustr ''m0''), msg_type = (ustr ''stream''),
                content = empty_content\<lparr>stream_name := Some (ustr ''stdout''), stream_text := Some (ustr ''old'')\<rparr>\<rparr>),
         (2, Raised (ustr ''closed''))],
      shell_poll = Queue_Empty\<rparr>"
        "\<lparr>has_history_manager = True, history = \<lparr>opens = True, write_ok = (\<lambda>t. True), contents = (ustr ''# h'')\<rparr>\<rparr>"]
  by (simp add: stale_pass_def iopub_timeout_duration_def)

text \<open>
  Claim C4. In a pass that gets to its poll, \<open>queue.Empty\<close> ends the loop exactly when
  \<open>kernel_reported_idle_for_request\<close> is set; when it is not set the pass sleeps once
  and the loop goes round again. The status message that reports the idle state for the
  request adds its line and sets the flag but does not end the loop, and the flag is set
  after a pass exactly when it was set before or the pass polled such a message.
\<close>

theorem empty_poll_exit_iff_idle_seen:
  assumes "\<not> elapsed > iopub_timeout_duration"
  shows "iopub_step msg_id st elapsed Queue_Empty =
           (if kernel_reported_idle_for_request st then Break st
            else Continue (st\<lparr>sleeps := Suc (sleeps st)\<rparr>)) \<and>
         ((\<exists>st'. iopub_step msg_id st elapsed Queue_Empty = Break st') \<longleftrightarrow>
            kernel_reported_idle_for_request st) \<and>
         (idle_status_for msg_id m \<longrightarrow>
            iopub_step msg_id st elapsed (Received m) =
              Continue (st\<lparr>outputs := outputs st @ [(ustr ''  Kernel Status: idle'')],
                          kernel_reported_idle_for_request := True\<rparr>)) \<and>
         (iopub_step msg_id st elapsed p = Continue st' \<longrightarrow>
            (kernel_reported_idle_for_request st' \<longleftrightarrow>
               kernel_reported_idle_for_request st \<or>
               (\<exists>m'. p = Received m' \<and> idle_status_for msg_id m')))"
proof (intro conjI impI)
  show e: "iopub_step msg_id st elapsed Queue_Empty =
           (if kernel_reported_idle_for_request st then Break st
            else Continue (st\<lparr>sleeps := Suc (sleeps st)\<rparr>))"
    using assms by (simp add: iopub_step_def)
  show "(\<exists>st'. iopub_step msg_id st elapsed Queue_Empty = Break st') \<longleftrightarrow>
            kernel_reported_idle_for_request st"
    by (simp add: e)
next
  assume i: "idle_status_for msg_id m"
  then have "process_iopub m st =
      Inr (st\<lparr>outputs := outputs st @ [(ustr ''  Kernel Status: idle'')],
              kernel_reported_idle_for_request := True\<rparr>)"
    by (simp add: idle_status_for_def process_iopub_def append_outputs_def)
  with i assms show "iopub_step msg_id st elapsed (Received m) =
              Continue (st\<lparr>outputs := outputs st @ [(ustr ''  Kernel Status: idle'')],
                          kernel_reported_idle_for_request := True\<rparr>)"
    by (simp add: idle_status_for_def iopub_step_def)
next
  assume c: "iopub_step msg_id st elapsed p = Continue st'"
  show "kernel_reported_idle_for_request st' \<longleftrightarrow>
               kernel_reported_idle_for_request st \<or>
               (\<exists>m'. p = Received m' \<and> idle_status_for msg_id m')"
  proof (cases p)
    case (Received m')
    show ?thesis
    proof (cases "parent_msg_id m' = Some msg_id")
      case True
      with c Received assms have "process_iopub m' st = Inr st'"
        by (simp add: iopub_step_def split: sum.splits)
      from process_iopub_idle [OF this] True Received show ?thesis
        by (simp add: idle_status_for_def)
    next
      case False
      with c Received assms show ?thesis
        by (simp add: iopub_step_def idle_status_for_def)
    qed
  next
    case Queue_Empty
    with c assms show ?thesis
      by (auto simp: iopub_step_def split: if_splits)
  next
    case (Raised e)
    with c assms show ?thesis
      by (simp add: iopub_step_def)
  qed
qed

theorem empty_poll_exit_iff_idle_seen_witness:
  "iopub_step (ustr ''m1'') initial_state 1 Queue_Empty = Continue (initial_state\<lparr>sleeps := 1\<rparr>) \<and>
   iopub_step (ustr ''m1'') (initial_state\<lparr>kernel_reported_idle_for_request := True\<rparr>) 1 Queue_Empty =
     Break (initial_state\<lparr>kernel_reported_idle_for_request := True\<rparr>) \<and>
   iopub_step (ustr ''m1'') initial_state 1
     (Received \<lparr>parent_msg_id = Some (ustr ''m1''), msg_type = (ustr ''status''),
                content = empty_content\<lparr>execution_state := Some (ustr ''idle'')\<rparr>\<rparr>) =
     Continue (initial_state\<lparr>outputs := [(ustr ''  Kernel Status: idle'')],
                              kernel_reported_idle_for_request := True\<rparr>)"
  using empty_poll_exit_iff_idle_seen
          [of 1 "(ustr ''m1'')" initial_state
              "\<lparr>parent_msg_id = Some (ustr ''m1''), msg_type = (ustr ''status''),
                content = empty_content\<lparr>execution_state := Some (ustr ''idle'')\<rparr>\<rparr>"
              "Received \<lparr>parent_msg_id = Some (ustr ''m1''), msg_type = (ustr ''status''),
                content = empty_content\<lparr>execution_state := Some (ustr ''idle'')\<rparr>\<rparr>"
              "initial_state\<lparr>outputs := [(ustr ''  Kernel Status: idle'')],
                              kernel_reported_idle_for_request := True\<rparr>"]
        empty_poll_exit_iff_idle_seen
          [of 1 "(ustr ''m1'')" "initial_state\<lparr>kernel_reported_idle_for_request := True\<rparr>"]
  by (simp add: idle_status_for_def iopub_timeout_duration_def initial_state_def empty_content_def)

text \<open>
  Claim C5. The overall timeout is 10. A pass at whose head the program computes an
  elapsed time of more than 10 breaks out of the loop with the timeout marker appended,
  whatever the flag and whatever the poll would give. So as soon as the passes hold such
  an elapsed time the loop returns, no later than at that pass, and if no earlier pass
  left the loop the last line is the timeout marker; \<open>send_command\<close> then returns a text.
\<close>

theorem overall_timeout_ends_loop:
  "iopub_timeout_duration = 10 \<and>
   (elapsed > iopub_timeout_duration \<longrightarrow>
      iopub_step msg_id st elapsed p = Break (st\<lparr>outputs := outputs st @ [timeout_marker]\<rparr>)) \<and>
   (i < length passes \<and> fst (passes ! i) > iopub_timeout_duration \<longrightarrow>
      (\<exists>st'. iopub_loop msg_id st (take (Suc i) passes) = Some st' \<and>
             iopub_loop msg_id st passes = Some st' \<and>
             (iopub_loop msg_id st (take i passes) = None \<longrightarrow>
                last (outputs st') = timeout_marker)) \<and>
      (\<exists>n\<le>i. exit_pass msg_id (kernel_reported_idle_for_request st) passes = Some n)) \<and>
   (submitted env \<and> i < length (iopub_passes env) \<and>
    fst (iopub_passes env ! i) > iopub_timeout_duration \<longrightarrow>
      (\<exists>t s'. send_command command env s = Some (t, s')))"
proof (intro conjI impI)
  show "iopub_timeout_duration = 10" by (simp add: iopub_timeout_duration_def)
next
  assume "elapsed > iopub_timeout_duration"
  then show "iopub_step msg_id st elapsed p = Break (st\<lparr>outputs := outputs st @ [timeout_marker]\<rparr>)"
    by (rule iopub_step_timeout)
next
  assume a: "i < length passes \<and> fst (passes ! i) > iopub_timeout_duration"
  then obtain st' where st': "iopub_loop msg_id st (take (Suc i) passes) = Some st'"
    using iopub_loop_timeout_pass by blast
  have "iopub_loop msg_id st (take (Suc i) passes @ drop (Suc i) passes) = Some st'"
    using st' by (rule iopub_loop_append)
  then have full: "iopub_loop msg_id st passes = Some st'" by simp
  have "iopub_loop msg_id st (take i passes) = None \<longrightarrow> last (outputs st') = timeout_marker"
    using iopub_loop_timeout_marker [of i passes msg_id st] a full by auto
  with st' full show "\<exists>st'. iopub_loop msg_id st (take (Suc i) passes) = Some st' \<and>
             iopub_loop msg_id st passes = Some st' \<and>
             (iopub_loop msg_id st (take i passes) = None \<longrightarrow>
                last (outputs st') = timeout_marker)"
    by (intro exI [of _ st']) simp
  from a show "\<exists>n\<le>i. exit_pass msg_id (kernel_reported_idle_for_request st) passes = Some n"
    using exit_pass_timeout by blast
next
  assume a: "submitted env \<and> i < length (iopub_passes env) \<and>
    fst (iopub_passes env ! i) > iopub_timeout_duration"
  then obtain st' :: loop_state where
    "iopub_loop (execute_msg_id env) initial_state (take (Suc i) (iopub_passes env)) = Some st'"
    using iopub_loop_timeout_pass [of i "iopub_passes env" "execute_msg_id env" initial_state]
    by blast
  then have "iopub_loop (execute_msg_id env) initial_state
               (take (Suc i) (iopub_passes env) @ drop (Suc i) (iopub_passes env)) = Some st'"
    by (rule iopub_loop_append)
  then have "iopub_loop (execute_msg_id env) initial_state (iopub_passes env) = Some st'"
    by simp
  then have "map_option fst (send_command command env s) \<noteq> None"
    using a send_command_text [of env command s] by (simp only: option.map_disc_iff) simp
  then show "\<exists>t s'. send_command command env s = Some (t, s')"
    by (cases "send_command command env s") auto
qed

theorem overall_timeout_ends_loop_witness:
  "(\<exists>st'. iopub_loop (ustr ''m1'') initial_state
            [(0.5, Queue_Empty), (5, Queue_Empty), (10.25, Queue_Empty), (10.75, Queue_Empty)] = Some st' \<and>
          iopub_loop (ustr ''m1'') initial_state
            [(0.5, Queue_Empty), (5, Queue_Empty), (10.25, Queue_Empty)] = Some st' \<and>
          last (outputs st') = timeout_marker) \<and>
   (\<exists>n\<le>2. exit_pass (ustr ''m1'') False
            [(0.5, Queue_Empty), (5, Queue_Empty), (10.25, Queue_Empty), (10.75, Queue_Empty)] = Some n) \<and>
   iopub_step (ustr ''m1'') initial_state 10 Queue_Empty = Continue (initial_state\<lparr>sleeps := 1\<rparr>)"
proof -
  let ?passes = "[(0.5, Queue_Empty), (5, Queue_Empty), (10.25, Queue_Empty), (10.75, Queue_Empty)] :: (real \<times> poll) list"
  have h1: "2 < length ?passes \<and> fst (?passes ! 2) > iopub_timeout_duration"
    by (simp add: iopub_timeout_duration_def)
  have h2: "iopub_loop (ustr ''m1'') initial_state (take 2 ?passes) = None"
    by (simp add: iopub_step_def iopub_timeout_duration_def initial_state_def numeral_2_eq_2)
  have h3: "take (Suc 2) ?passes = [(0.5, Queue_Empty), (5, Queue_Empty), (10.25, Queue_Empty)]"
    by (simp add: numeral_2_eq_2)
  have h4: "kernel_reported_idle_for_request initial_state = False"
    by (simp add: initial_state_def)
  have h5: "iopub_step (ustr ''m1'') initial_state 10 Queue_Empty = Continue (initial_state\<lparr>sleeps := 1\<rparr>)"
    by (simp add: iopub_step_def iopub_timeout_duration_def initial_state_def)
  from overall_timeout_ends_loop [of "10.25" "ustr ''m1''" initial_state Queue_Empty 2 "?passes"] h1 h2 h5
  show ?thesis unfolding h3 h4 by blast
qed

section \<open>Properties of the shell reply and of the returned text\<close>

lemma shell_phase_outs:
  "shell_phase mid outs p = hd (shell_phase mid [] p) # outs @ tl (shell_phase mid [] p)"
  by (simp add: shell_phase_def split: poll.splits option.splits)

lemma first_line_append:
  "newline \<notin> set x \<Longrightarrow> first_line (x @ y) = x @ first_line y"
  by (simp add: first_line_def takeWhile_append)

lemma first_line_join:
  "first_line (py_join [newline] (x # ys)) = first_line x"
proof (cases ys)
  case Nil
  then show ?thesis by simp
next
  case (Cons y zs)
  show ?thesis
  proof (cases "newline \<in> set x")
    case True
    then show ?thesis using Cons by (auto simp: first_line_def takeWhile_append)
  next
    case False
    have a: "first_line (x @ newline # w) = x" for w
      using first_line_append [OF False, of "newline # w"] by (simp add: first_line_def)
    have b: "first_line x = x"
      using first_line_append [OF False, of "[]"] by (simp add: first_line_def)
    show ?thesis using Cons by (simp add: a b)
  qed
qed

lemma send_command_submitted:
  assumes "submitted env" and "send_command command env s = Some (t, s')"
  shows "\<exists>lst. iopub_loop (execute_msg_id env) initial_state
                 (iopub_passes env) = Some lst \<and>
               t = py_join [newline]
                     (filter_none (shell_phase (execute_msg_id env) (outputs lst) (shell_poll env)))"
  using assms
  by (cases "iopub_loop (execute_msg_id env) initial_state (iopub_passes env)")
     (auto simp: send_command_def submitted_def Let_def split: if_splits)

text \<open>
  Claim C6. The one poll of the reply stream has one of four outcomes. A reply for the
  request with a status puts \<open>Status: <status>\<close> in front and adds the error name,
  value and traceback lines when the status is \<open>error\<close>, the execution count line when
  it is \<open>ok\<close>, and nothing otherwise. A reply for another request puts
  \<open>Status: error_shell_reply_mismatch\<close> in front and adds a note with both ids. No reply
  within the timeout puts \<open>Status: error_shell_reply_timeout\<close> in front and adds a
  timeout note. Any other exception puts \<open>Status: error_shell_reply_exception\<close> in front
  and adds its text; a reply for the request without a status entry is such an
  exception, the \<open>KeyError\<close>.
\<close>
theorem shell_reply_dispositions:
  "(parent_msg_id r = Some msg_id \<and> status (content r) = Some st \<longrightarrow>
      shell_phase msg_id outs (Received r) =
        ((ustr ''Status: '') @ st) # outs @
        (if st = (ustr ''error'') then
           [(ustr ''  Shell Error Name: '') @ get_default (ename (content r)) (ustr ''N/A''),
            (ustr ''  Shell Error Value: '') @ get_default (evalue (content r)) (ustr ''N/A'')] @
           traceback_lines (ustr ''  Shell Traceback:'') (get_default (traceback (content r)) [])
         else if st = (ustr ''ok'') then
           [(ustr ''  Execution Count: '') @
            (case execution_count (content r) of None \<Rightarrow> (ustr ''N/A'') | Some n \<Rightarrow> str_int n)]
         else [])) \<and>
   (parent_msg_id r \<noteq> Some msg_id \<longrightarrow>
      shell_phase msg_id outs (Received r) =
        (ustr ''Status: error_shell_reply_mismatch'') # outs @
        [(ustr ''Shell reply (msg_id '') @ get_default (parent_msg_id r) (ustr ''None'') @
         (ustr '') was not for the current command (msg_id '') @ msg_id @ (ustr '').'')]) \<and>
   shell_phase msg_id outs Queue_Empty =
     (ustr ''Status: error_shell_reply_timeout'') # outs @
     [(ustr ''Timeout waiting for shell reply from IPython kernel.'')] \<and>
   shell_phase msg_id outs (Raised e) =
     (ustr ''Status: error_shell_reply_exception'') # outs @
     [(ustr ''Exception while getting shell reply: '') @ e] \<and>
   (parent_msg_id r = Some msg_id \<and> status (content r) = None \<longrightarrow>
      shell_phase msg_id outs (Received r) =
        (ustr ''Status: error_shell_reply_exception'') # outs @
        [(ustr ''Exception while getting shell reply: '') @ key_error (ustr ''status'')])"
  by (simp add: shell_phase_def)

theorem shell_reply_dispositions_witness:
  "shell_phase (ustr ''m1'') [(ustr ''  Stdout: hi'')]
     (Received \<lparr>parent_msg_id = Some (ustr ''m1''), msg_type = (ustr ''execute_reply''), content = empty_content\<lparr>status := Some (ustr ''error''), ename := Some (ustr ''NameError''), traceback := Some [(ustr ''line 1'')]\<rparr>\<rparr>) =
     [(ustr ''Status: error''), (ustr ''  Stdout: hi''), (ustr ''  Shell Error Name: NameError''),
      (ustr ''  Shell Error Value: N/A''), (ustr ''  Shell Traceback:''), (ustr ''    line 1'')] \<and>
   shell_phase (ustr ''m1'') [(ustr ''  Stdout: hi'')]
     (Received \<lparr>parent_msg_id = Some (ustr ''m0''), msg_type = (ustr ''execute_reply''), content = empty_content\<lparr>status := Some (ustr ''ok'')\<rparr>\<rparr>) =
     [(ustr ''Status: error_shell_reply_mismatch''), (ustr ''  Stdout: hi''),
      (ustr ''Shell reply (msg_id m0) was not for the current command (msg_id m1).'')] \<and>
   shell_phase (ustr ''m1'') [(ustr ''  Stdout: hi'')] Queue_Empty =
     [(ustr ''Status: error_shell_reply_timeout''), (ustr ''  Stdout: hi''),
      (ustr ''Timeout waiting for shell reply from IPython kernel.'')] \<and>
   shell_phase (ustr ''m1'') [(ustr ''  Stdout: hi'')] (Raised (ustr ''closed'')) =
     [(ustr ''Status: error_shell_reply_exception''), (ustr ''  Stdout: hi''),
      (ustr ''Exception while getting shell reply: closed'')] \<and>
   shell_phase (ustr ''m1'') [(ustr ''  Stdout: hi'')]
     (Received \<lparr>parent_msg_id = Some (ustr ''m1''), msg_type = (ustr ''execute_reply''), content = empty_content\<lparr>execution_count := Some 3\<rparr>\<rparr>) =
     [(ustr ''Status: error_shell_reply_exception''), (ustr ''  Stdout: hi''),
      (ustr ''Exception while getting shell reply: '') @ [0x27] @ (ustr ''status'') @ [0x27]]"
  using shell_reply_dispositions
          [of "\<lparr>parent_msg_id = Some (ustr ''m1''), msg_type = (ustr ''execute_reply''), content = empty_content\<lparr>status := Some (ustr ''error''), ename := Some (ustr ''NameError''), traceback := Some [(ustr ''line 1'')]\<rparr>\<rparr>"
              "(ustr ''m1'')" "(ustr ''error'')" "[(ustr ''  Stdout: hi'')]" "(ustr ''closed'')"]
        shell_reply_dispositions
          [of "\<lparr>parent_msg_id = Some (ustr ''m0''), msg_type = (ustr ''execute_reply''), content = empty_content\<lparr>status := Some (ustr ''ok'')\<rparr>\<rparr>"
              "(ustr ''m1'')" "(ustr ''ok'')" "[(ustr ''  Stdout: hi'')]" "(ustr ''closed'')"]
        shell_reply_dispositions
          [of "\<lparr>parent_msg_id = Some (ustr ''m1''), msg_type = (ustr ''execute_reply''), content = empty_content\<lparr>execution_count := Some 3\<rparr>\<rparr>"
              "(ustr ''m1'')" "(ustr ''ok'')" "[(ustr ''  Stdout: hi'')]" "(ustr ''closed'')"]
  by (simp add: empty_content_def get_default_def traceback_lines_def key_error_def
        repr_str_def repr_char_def Let_def)

text \<open>
  Claim C9. A reply for the request whose status is neither \<open>ok\<close> nor \<open>error\<close> adds one
  line only, \<open>Status: <status>\<close>, in front of the list; the returned text is that line
  followed by the non-empty lines of the loop, and its first line is \<open>Status: \<close> followed
  by the first line of the status.
\<close>
theorem other_status_reply_only_status_line:
  assumes "parent_msg_id r = Some msg_id"
      and "status (content r) = Some st"
      and "st \<noteq> (ustr ''ok'')" and "st \<noteq> (ustr ''error'')"
  shows "shell_phase msg_id outs (Received r) = ((ustr ''Status: '') @ st) # outs \<and>
         hd (shell_phase msg_id outs (Received r)) = (ustr ''Status: '') @ st \<and>
         (submitted env \<and> shell_poll env = Received r \<and> execute_msg_id env = msg_id \<and>
          send_command command env s = Some (t, s') \<longrightarrow>
            (\<exists>lst. iopub_loop msg_id initial_state (iopub_passes env) = Some lst \<and>
                   t = py_join [newline] (((ustr ''Status: '') @ st) # filter_none (outputs lst)) \<and>
                   first_line t = (ustr ''Status: '') @ first_line st))"
proof (intro conjI impI)
  show sp: "shell_phase msg_id outs (Received r) = ((ustr ''Status: '') @ st) # outs" for outs
    using assms by (simp add: shell_phase_def)
  show "hd (shell_phase msg_id outs (Received r)) = (ustr ''Status: '') @ st"
    by (simp add: sp)
  assume a: "submitted env \<and> shell_poll env = Received r \<and> execute_msg_id env = msg_id \<and>
          send_command command env s = Some (t, s')"
  with send_command_submitted [of env command s t s'] obtain lst where
    lst: "iopub_loop msg_id initial_state (iopub_passes env) = Some lst"
    and t0: "t = py_join [newline] (filter_none (shell_phase msg_id (outputs lst) (Received r)))"
    by auto
  have t: "t = py_join [newline] (((ustr ''Status: '') @ st) # filter_none (outputs lst))"
    unfolding t0 sp by (simp add: filter_none_def)
  have "newline \<notin> set (ustr ''Status: '')" by (simp add: newline_def)
  then have "first_line t = (ustr ''Status: '') @ first_line st"
    unfolding t first_line_join by (rule first_line_append)
  with lst t show "\<exists>lst. iopub_loop msg_id initial_state (iopub_passes env) = Some lst \<and>
                   t = py_join [newline] (((ustr ''Status: '') @ st) # filter_none (outputs lst)) \<and>
                   first_line t = (ustr ''Status: '') @ first_line st"
    by (intro exI [of _ lst]) simp
qed

theorem other_status_reply_only_status_line_witness:
  "shell_phase (ustr ''m1'') [(ustr ''  Kernel Status: idle'')]
     (Received \<lparr>parent_msg_id = Some (ustr ''m1''), msg_type = (ustr ''execute_reply''), content = empty_content\<lparr>status := Some (ustr ''aborted'')\<rparr>\<rparr>) =
     [(ustr ''Status: aborted''), (ustr ''  Kernel Status: idle'')] \<and>
   first_line ((ustr ''Status: aborted'') @ [newline] @ (ustr ''  Kernel Status: idle'')) = (ustr ''Status: aborted'')"
proof -
  let ?env = "\<lparr>kc_present = True, km_alive = True, start_outcome = Started, channels_running = True,
      ready_after_channel_restart = True, execute_msg_id = (ustr ''m1''),
      iopub_passes = [(0.375, Received \<lparr>parent_msg_id = Some (ustr ''m1''), msg_type = (ustr ''status''), content = empty_content\<lparr>execution_state := Some (ustr ''idle'')\<rparr>\<rparr>),
         (0.875, Queue_Empty)],
      shell_poll = Received \<lparr>parent_msg_id = Some (ustr ''m1''), msg_type = (ustr ''execute_reply''), content = empty_content\<lparr>status := Some (ustr ''aborted'')\<rparr>\<rparr>\<rparr>"
  let ?r = "\<lparr>parent_msg_id = Some (ustr ''m1''), msg_type = (ustr ''execute_reply''), content = empty_content\<lparr>status := Some (ustr ''aborted'')\<rparr>\<rparr>"
  have h: "send_command (ustr ''x = 1'') ?env \<lparr>has_history_manager = True, history = \<lparr>opens = True, write_ok = (\<lambda>t. True), contents = (ustr ''# h'')\<rparr>\<rparr> =
           Some ((ustr ''Status: aborted'') @ [newline] @ (ustr ''  Kernel Status: idle''),
                 \<lparr>has_history_manager = True, history = \<lparr>opens = True, write_ok = (\<lambda>t. True), contents = (ustr ''# hx = 1'') @ [newline]\<rparr>\<rparr>)"
    by (simp add: send_command_def Let_def init_history_manager_def save_command_def
          py_startswith_def py_strip_def is_space_def iopub_step_def iopub_timeout_duration_def
          process_iopub_def append_outputs_def initial_state_def shell_phase_def filter_none_def
          empty_content_def get_default_def traceback_lines_def str_int_def
          upper_char_def lower_char_def)
  have r: "parent_msg_id ?r = Some (ustr ''m1'')" "status (content ?r) = Some (ustr ''aborted'')"
          "(ustr ''aborted'') \<noteq> (ustr ''ok'')" "(ustr ''aborted'') \<noteq> (ustr ''error'')"
    by (simp_all add: empty_content_def)
  have e: "submitted ?env \<and> shell_poll ?env = Received ?r \<and> execute_msg_id ?env = (ustr ''m1'')"
    by (simp add: submitted_def)
  from other_status_reply_only_status_line
         [OF r, of "[(ustr ''  Kernel Status: idle'')]" ?env "(ustr ''x = 1'')" "\<lparr>has_history_manager = True, history = \<lparr>opens = True, write_ok = (\<lambda>t. True), contents = (ustr ''# h'')\<rparr>\<rparr>"
             "(ustr ''Status: aborted'') @ [newline] @ (ustr ''  Kernel Status: idle'')"
             "\<lparr>has_history_manager = True, history = \<lparr>opens = True, write_ok = (\<lambda>t. True), contents = (ustr ''# hx = 1'') @ [newline]\<rparr>\<rparr>"] h e
  show ?thesis
    by (simp add: first_line_def newline_def)
qed

lemma status_line_prefix: "prefix (ustr ''Status: '') (status_line mid p)"
  by (simp add: status_line_def shell_phase_def split: poll.splits option.splits)

text \<open>
  Claim C7. When the request is submitted, \<open>send_command\<close> returns exactly when some pass
  ends the loop, and the text is then the newline-join of the non-empty members of: the
  status line, then the lines of the passes of the loop up to and including the first
  pass that ends it, pass by pass in their order, then the lines added for the reply.
\<close>

theorem transcript_order:
  assumes "submitted env"
  shows "map_option fst (send_command command env s) =
           map_option
             (\<lambda>n. py_join [newline]
                    (filter_none
                       ([status_line (execute_msg_id env) (shell_poll env)] @
                        concat (map (pass_lines (execute_msg_id env))
                                    (take (Suc n) (iopub_passes env))) @
                        reply_lines (execute_msg_id env) (shell_poll env))))
             (exit_pass (execute_msg_id env) False (iopub_passes env)) \<and>
         prefix (ustr ''Status: '') (status_line (execute_msg_id env) (shell_poll env))"
proof
  let ?mid = "execute_msg_id env"
  have sp: "shell_phase ?mid outs (shell_poll env) =
            [status_line ?mid (shell_poll env)] @ outs @ reply_lines ?mid (shell_poll env)" for outs
    using shell_phase_outs [of ?mid outs "shell_poll env"]
    by (simp add: status_line_def reply_lines_def)
  have "map_option fst (send_command command env s) =
        map_option (\<lambda>outs. py_join [newline] (filter_none (shell_phase ?mid outs (shell_poll env))))
          (map_option outputs (iopub_loop ?mid initial_state (iopub_passes env)))"
    by (simp add: send_command_text [OF assms] option.map_comp o_def)
  also have "map_option outputs (iopub_loop ?mid initial_state (iopub_passes env)) =
        map_option (\<lambda>n. concat (map (pass_lines ?mid) (take (Suc n) (iopub_passes env))))
          (exit_pass ?mid False (iopub_passes env))"
    using iopub_loop_exit [of ?mid initial_state "iopub_passes env"]
    by (simp add: initial_state_def)
  finally show "map_option fst (send_command command env s) =
           map_option
             (\<lambda>n. py_join [newline]
                    (filter_none
                       ([status_line ?mid (shell_poll env)] @
                        concat (map (pass_lines ?mid) (take (Suc n) (iopub_passes env))) @
                        reply_lines ?mid (shell_poll env))))
             (exit_pass ?mid False (iopub_passes env))"
    by (simp add: option.map_comp o_def sp)
  show "prefix (ustr ''Status: '') (status_line ?mid (shell_poll env))"
    by (rule status_line_prefix)
qed

theorem transcript_order_witness:
  "map_option fst
     (send_command (ustr ''x = 1'')
        \<lparr>kc_present = True, km_alive = True, start_outcome = Started, channels_running = True,
      ready_after_channel_restart = True, execute_msg_id = ustr ''m1'',
      iopub_passes =
        [(0.125, Received \<lparr>parent_msg_id = Some (ustr ''m1''), msg_type = ustr ''status'', content = empty_content\<lparr>execution_state := Some (ustr ''busy'')\<rparr>\<rparr>),
         (0.25, Received \<lparr>parent_msg_id = Some (ustr ''m0''), msg_type = ustr ''stream'', content = empty_content\<lparr>stream_name := Some (ustr ''stdout''), stream_text := Some (ustr ''old'')\<rparr>\<rparr>),
         (0.375, Received \<lparr>parent_msg_id = Some (ustr ''m1''), msg_type = ustr ''stream'', content = empty_content\<lparr>stream_name := Some (ustr ''stdout''), stream_text := Some (ustr ''hi'' @ [newline])\<rparr>\<rparr>),
         (0.5, Received \<lparr>parent_msg_id = Some (ustr ''m1''), msg_type = ustr ''status'', content = empty_content\<lparr>execution_state := Some (ustr ''idle'')\<rparr>\<rparr>),
         (1, Queue_Empty),
         (1.5, Received \<lparr>parent_msg_id = Some (ustr ''m1''), msg_type = ustr ''stream'', content = empty_content\<lparr>stream_name := Some (ustr ''stdout''), stream_text := Some (ustr ''late'')\<rparr>\<rparr>)],
      shell_poll = Received \<lparr>parent_msg_id = Some (ustr ''m1''), msg_type = ustr ''execute_reply'', content = empty_content\<lparr>status := Some (ustr ''ok''), execution_count := Some 3\<rparr>\<rparr>\<rparr>
        \<lparr>has_history_manager = True, history = \<lparr>opens = True, write_ok = (\<lambda>t. True), contents = ustr ''# h''\<rparr>\<rparr>) =
   Some (ustr ''Status: ok'' @ [newline] @
           ustr ''  Kernel Status: busy'' @ [newline] @
           ustr ''  Stdout: hi'' @ [newline] @
           ustr ''  Kernel Status: idle'' @ [newline] @
           ustr ''  Execution Count: 3'') \<and>
   map_option fst
     (send_command (ustr ''x = 1'')
        \<lparr>kc_present = True, km_alive = True, start_outcome = Started, channels_running = True,
      ready_after_channel_restart = True, execute_msg_id = ustr ''m1'',
      iopub_passes =
        [(0.125, Received \<lparr>parent_msg_id = Some (ustr ''m1''), msg_type = ustr ''status'', content = empty_content\<lparr>execution_state := Some (ustr ''busy'')\<rparr>\<rparr>),
         (0.375, Received \<lparr>parent_msg_id = Some (ustr ''m1''), msg_type = ustr ''stream'', content = empty_content\<lparr>stream_name := Some (ustr ''stdout''), stream_text := Some (ustr ''hi'' @ [newline])\<rparr>\<rparr>)],
      shell_poll = Received \<lparr>parent_msg_id = Some (ustr ''m1''), msg_type = ustr ''execute_reply'', content = empty_content\<lparr>status := Some (ustr ''ok''), execution_count := Some 3\<rparr>\<rparr>\<rparr>
        \<lparr>has_history_manager = True, history = \<lparr>opens = True, write_ok = (\<lambda>t. True), contents = ustr ''# h''\<rparr>\<rparr>) = None"
proof -
  let ?env = "\<lparr>kc_present = True, km_alive = True, start_outcome = Started, channels_running = True,
      ready_after_channel_restart = True, execute_msg_id = ustr ''m1'',
      iopub_passes =
        [(0.125, Received \<lparr>parent_msg_id = Some (ustr ''m1''), msg_type = ustr ''status'', content = empty_content\<lparr>execution_state := Some (ustr ''busy'')\<rparr>\<rparr>),
         (0.25, Received \<lparr>parent_msg_id = Some (ustr ''m0''), msg_type = ustr ''stream'', content = empty_content\<lparr>stream_name := Some (ustr ''stdout''), stream_text := Some (ustr ''old'')\<rparr>\<rparr>),
         (0.375, Received \<lparr>parent_msg_id = Some (ustr ''m1''), msg_type = ustr ''stream'', content = empty_content\<lparr>stream_name := Some (ustr ''stdout''), stream_text := Some (ustr ''hi'' @ [newline])\<rparr>\<rparr>),
         (0.5, Received \<lparr>parent_msg_id = Some (ustr ''m1''), msg_type = ustr ''status'', content = empty_content\<lparr>execution_state := Some (ustr ''idle'')\<rparr>\<rparr>),
         (1, Queue_Empty),
         (1.5, Received \<lparr>parent_msg_id = Some (ustr ''m1''), msg_type = ustr ''stream'', content = empty_content\<lparr>stream_name := Some (ustr ''stdout''), stream_text := Some (ustr ''late'')\<rparr>\<rparr>)],
      shell_poll = Received \<lparr>parent_msg_id = Some (ustr ''m1''), msg_type = ustr ''execute_reply'', content = empty_content\<lparr>status := Some (ustr ''ok''), execution_count := Some 3\<rparr>\<rparr>\<rparr>"
  let ?envn = "\<lparr>kc_present = True, km_alive = True, start_outcome = Started, channels_running = True,
      ready_after_channel_restart = True, execute_msg_id = ustr ''m1'',
      iopub_passes =
        [(0.125, Received \<lparr>parent_msg_id = Some (ustr ''m1''), msg_type = ustr ''status'', content = empty_content\<lparr>execution_state := Some (ustr ''busy'')\<rparr>\<rparr>),
         (0.375, Received \<lparr>parent_msg_id = Some (ustr ''m1''), msg_type = ustr ''stream'', content = empty_content\<lparr>stream_name := Some (ustr ''stdout''), stream_text := Some (ustr ''hi'' @ [newline])\<rparr>\<rparr>)],
      shell_poll = Received \<lparr>parent_msg_id = Some (ustr ''m1''), msg_type = ustr ''execute_reply'', content = empty_content\<lparr>status := Some (ustr ''ok''), execution_count := Some 3\<rparr>\<rparr>\<rparr>"
  let ?s = "\<lparr>has_history_manager = True, history = \<lparr>opens = True, write_ok = (\<lambda>t. True), contents = ustr ''# h''\<rparr>\<rparr>"
  have sub: "submitted ?env" "submitted ?envn"
    by (simp_all add: submitted_def)
  have x: "exit_pass (execute_msg_id ?env) False (iopub_passes ?env) = Some 4"
    by (simp add: ends_loop_def reports_idle_def idle_status_for_def iopub_timeout_duration_def
          process_iopub_def append_outputs_def initial_state_def empty_content_def)
  have xn: "exit_pass (execute_msg_id ?envn) False (iopub_passes ?envn) = None"
    by (simp add: ends_loop_def reports_idle_def idle_status_for_def iopub_timeout_duration_def
          process_iopub_def append_outputs_def initial_state_def empty_content_def)
  have l: "concat (map (pass_lines (execute_msg_id ?env)) (take (Suc 4) (iopub_passes ?env))) =
           [ustr ''  Kernel Status: busy'', ustr ''  Stdout: hi'', ustr ''  Kernel Status: idle'']"
    by (simp add: pass_lines_def step_state_def iopub_step_def iopub_timeout_duration_def
          process_iopub_def append_outputs_def initial_state_def empty_content_def
          py_strip_def is_space_def upper_char_def lower_char_def newline_def)
  have r: "status_line (execute_msg_id ?env) (shell_poll ?env) = ustr ''Status: ok''"
          "reply_lines (execute_msg_id ?env) (shell_poll ?env) = [ustr ''  Execution Count: 3'']"
    by (simp_all add: status_line_def reply_lines_def shell_phase_def empty_content_def str_int_def)
  define res where "res = map_option fst (send_command (ustr ''x = 1'') ?env ?s)"
  define resn where "resn = map_option fst (send_command (ustr ''x = 1'') ?envn ?s)"
  from transcript_order [OF sub(1), of "ustr ''x = 1''" ?s]
  have "res =
        map_option
          (\<lambda>n. py_join [newline]
                 (filter_none
                    ([status_line (execute_msg_id ?env) (shell_poll ?env)] @
                     concat (map (pass_lines (execute_msg_id ?env))
                                 (take (Suc n) (iopub_passes ?env))) @
                     reply_lines (execute_msg_id ?env) (shell_poll ?env))))
          (exit_pass (execute_msg_id ?env) False (iopub_passes ?env))"
    unfolding res_def by (rule conjunct1)
  then have "res =
        Some (py_join [newline]
                (filter_none
                   ([ustr ''Status: ok''] @
                    [ustr ''  Kernel Status: busy'', ustr ''  Stdout: hi'', ustr ''  Kernel Status: idle''] @
                    [ustr ''  Execution Count: 3''])))"
    unfolding x option.map l r .
  then have 1: "res = Some (ustr ''Status: ok'' @ [newline] @
           ustr ''  Kernel Status: busy'' @ [newline] @
           ustr ''  Stdout: hi'' @ [newline] @
           ustr ''  Kernel Status: idle'' @ [newline] @
           ustr ''  Execution Count: 3'')"
    by (simp add: filter_none_def)
  from transcript_order [OF sub(2), of "ustr ''x = 1''" ?s]
  have "resn =
        map_option
          (\<lambda>n. py_join [newline]
                 (filter_none
                    ([status_line (execute_msg_id ?envn) (shell_poll ?envn)] @
                     concat (map (pass_lines (execute_msg_id ?envn))
                                 (take (Suc n) (iopub_passes ?envn))) @
                     reply_lines (execute_msg_id ?envn) (shell_poll ?envn))))
          (exit_pass (execute_msg_id ?envn) False (iopub_passes ?envn))"
    unfolding resn_def by (rule conjunct1)
  then have 2: "resn = None"
    unfolding xn option.map .
  from 1 2 show ?thesis unfolding res_def resn_def by (rule conjI)
qed

section \<open>Properties of clear_kernel\<close>

lemma sublist_map_iff:
  "sublist sub (map f s) \<longleftrightarrow> (\<exists>w. sublist w s \<and> map f w = sub)"
proof
  assume "sublist sub (map f s)"
  then obtain ps ss where eq: "map f s = ps @ sub @ ss" by (auto simp: sublist_def)
  let ?w = "take (length sub) (drop (length ps) s)"
  have "map f ?w = take (length sub) (drop (length ps) (map f s))"
    by (simp add: take_map drop_map)
  also have "\<dots> = sub" by (simp add: eq)
  finally have m: "map f ?w = sub" .
  have "sublist ?w (drop (length ps) s)" by (rule sublist_take)
  moreover have "sublist (drop (length ps) s) s" by (rule sublist_drop)
  ultimately have "sublist ?w s" by (rule sublist_order.order_trans)
  with m show "\<exists>w. sublist w s \<and> map f w = sub" by blast
next
  assume "\<exists>w. sublist w s \<and> map f w = sub"
  then show "sublist sub (map f s)" using map_mono_sublist by blast
qed

text \<open>
  Claim C10. \<open>clear_kernel\<close> returns a summary line, the line \<open>Details:\<close> and the whole
  text that \<open>send_command\<close> returned for \<open>%reset -f\<close>. The summary is the success summary
  exactly when that text holds \<open>Status: ok\<close> and no part of it reads \<open>error\<close> once put
  in lower case; otherwise it is the summary of potential issues.
\<close>
theorem clear_kernel_summary:
  assumes "send_command (ustr ''%reset -f'') env s = Some (out, s')"
  shows "\<exists>summary.
           clear_kernel env s =
             Some (summary @ [newline] @ (ustr ''Details:'') @ [newline] @ out, s') \<and>
           (summary = success_summary \<or> summary = issues_summary) \<and>
           (summary = success_summary \<longleftrightarrow>
              sublist (ustr ''Status: ok'') out \<and>
              \<not> (\<exists>w. sublist w out \<and> py_lower w = (ustr ''error'')))"
proof -
  have ne: "success_summary \<noteq> issues_summary"
    by (simp add: success_summary_def issues_summary_def)
  have e: "py_in (ustr ''error'') (py_lower out) \<longleftrightarrow> (\<exists>w. sublist w out \<and> py_lower w = (ustr ''error''))"
    unfolding py_in_def py_lower_def by (rule sublist_map_iff)
  show ?thesis
  proof (cases "py_in (ustr ''Status: ok'') out \<and> \<not> py_in (ustr ''error'') (py_lower out)")
    case True
    with assms have "clear_kernel env s =
        Some (success_summary @ [newline] @ (ustr ''Details:'') @ [newline] @ out, s')"
      by (simp add: clear_kernel_def success_summary_def)
    with True e show ?thesis
      by (intro exI [of _ success_summary]) (simp add: py_in_def)
  next
    case False
    with assms have "clear_kernel env s =
        Some (issues_summary @ [newline] @ (ustr ''Details:'') @ [newline] @ out, s')"
      by (auto simp: clear_kernel_def issues_summary_def)
    with False e ne show ?thesis
      by (intro exI [of _ issues_summary]) (auto simp: py_in_def)
  qed
qed

theorem clear_kernel_summary_witness:
  "clear_kernel
     \<lparr>kc_present = True, km_alive = True, start_outcome = Started, channels_running = True,
      ready_after_channel_restart = True, execute_msg_id = (ustr ''m1''),
      iopub_passes = [(0.25, Received \<lparr>parent_msg_id = Some (ustr ''m1''), msg_type = (ustr ''stream''), content = empty_content\<lparr>stream_name := Some (ustr ''stdout''), stream_text := Some (ustr ''No Error'')\<rparr>\<rparr>),
         (0.375, Received \<lparr>parent_msg_id = Some (ustr ''m1''), msg_type = (ustr ''status''), content = empty_content\<lparr>execution_state := Some (ustr ''idle'')\<rparr>\<rparr>),
         (0.875, Queue_Empty)],
      shell_poll = Received \<lparr>parent_msg_id = Some (ustr ''m1''), msg_type = (ustr ''execute_reply''), content = empty_content\<lparr>status := Some (ustr ''ok''), execution_count := Some 3\<rparr>\<rparr>\<rparr>
     \<lparr>has_history_manager = True, history = \<lparr>opens = True, write_ok = (\<lambda>t. True), contents = (ustr ''# h'')\<rparr>\<rparr> =
   Some (issues_summary @ [newline] @ (ustr ''Details:'') @ [newline] @
         (ustr ''Status: ok'') @ [newline] @ (ustr ''  Stdout: No Error'') @ [newline] @ (ustr ''  Kernel Status: idle'') @ [newline] @ (ustr ''  Execution Count: 3''),
         \<lparr>has_history_manager = True, history = \<lparr>opens = True, write_ok = (\<lambda>t. True), contents = (ustr ''# h'')\<rparr>\<rparr>) \<and>
   clear_kernel
     \<lparr>kc_present = True, km_alive = True, start_outcome = Started, channels_running = True,
      ready_after_channel_restart = True, execute_msg_id = (ustr ''m1''),
      iopub_passes = [(0.375, Received \<lparr>parent_msg_id = Some (ustr ''m1''), msg_type = (ustr ''status''), content = empty_content\<lparr>execution_state := Some (ustr ''idle'')\<rparr>\<rparr>),
         (0.875, Queue_Empty)],
      shell_poll = Received \<lparr>parent_msg_id = Some (ustr ''m1''), msg_type = (ustr ''execute_reply''), content = empty_content\<lparr>status := Some (ustr ''ok''), execution_count := Some 3\<rparr>\<rparr>\<rparr>
     \<lparr>has_history_manager = True, history = \<lparr>opens = True, write_ok = (\<lambda>t. True), contents = (ustr ''# h'')\<rparr>\<rparr> =
   Some (success_summary @ [newline] @ (ustr ''Details:'') @ [newline] @
         (ustr ''Status: ok'') @ [newline] @ (ustr ''  Kernel Status: idle'') @ [newline] @ (ustr ''  Execution Count: 3''),
         \<lparr>has_history_manager = True, history = \<lparr>opens = True, write_ok = (\<lambda>t. True), contents = (ustr ''# h'')\<rparr>\<rparr>)"
proof -
  let ?enve = "\<lparr>kc_present = True, km_alive = True, start_outcome = Started, channels_running = True,
      ready_after_channel_restart = True, execute_msg_id = (ustr ''m1''),
      iopub_passes = [(0.25, Received \<lparr>parent_msg_id = Some (ustr ''m1''), msg_type = (ustr ''stream''), content = empty_content\<lparr>stream_name := Some (ustr ''stdout''), stream_text := Some (ustr ''No Error'')\<rparr>\<rparr>),
         (0.375, Received \<lparr>parent_msg_id = Some (ustr ''m1''), msg_type = (ustr ''status''), content = empty_content\<lparr>execution_state := Some (ustr ''idle'')\<rparr>\<rparr>),
         (0.875, Queue_Empty)],
      shell_poll = Received \<lparr>parent_msg_id = Some (ustr ''m1''), msg_type = (ustr ''execute_reply''), content = empty_content\<lparr>status := Some (ustr ''ok''), execution_count := Some 3\<rparr>\<rparr>\<rparr>"
  let ?envs = "\<lparr>kc_present = True, km_alive = True, start_outcome = Started, channels_running = True,
      ready_after_channel_restart = True, execute_msg_id = (ustr ''m1''),
      iopub_passes = [(0.375, Received \<lparr>parent_msg_id = Some (ustr ''m1''), msg_type = (ustr ''status''), content = empty_content\<lparr>execution_state := Some (ustr ''idle'')\<rparr>\<rparr>),
         (0.875, Queue_Empty)],
      shell_poll = Received \<lparr>parent_msg_id = Some (ustr ''m1''), msg_type = (ustr ''execute_reply''), content = empty_content\<lparr>status := Some (ustr ''ok''), execution_count := Some 3\<rparr>\<rparr>\<rparr>"
  let ?oute = "(ustr ''Status: ok'') @ [newline] @ (ustr ''  Stdout: No Error'') @ [newline] @ (ustr ''  Kernel Status: idle'') @ [newline] @ (ustr ''  Execution Count: 3'')"
  let ?outs = "(ustr ''Status: ok'') @ [newline] @ (ustr ''  Kernel Status: idle'') @ [newline] @ (ustr ''  Execution Count: 3'')"
  let ?s = "\<lparr>has_history_manager = True, history = \<lparr>opens = True, write_ok = (\<lambda>t. True), contents = (ustr ''# h'')\<rparr>\<rparr>"
  have he: "send_command (ustr ''%reset -f'') ?enve ?s = Some (?oute, ?s)"
    by (simp add: send_command_def Let_def init_history_manager_def save_command_def
          py_startswith_def py_strip_def is_space_def iopub_step_def iopub_timeout_duration_def
          process_iopub_def append_outputs_def initial_state_def shell_phase_def filter_none_def
          empty_content_def get_default_def traceback_lines_def str_int_def
          upper_char_def lower_char_def)
  have hs: "send_command (ustr ''%reset -f'') ?envs ?s = Some (?outs, ?s)"
    by (simp add: send_command_def Let_def init_history_manager_def save_command_def
          py_startswith_def py_strip_def is_space_def iopub_step_def iopub_timeout_duration_def
          process_iopub_def append_outputs_def initial_state_def shell_phase_def filter_none_def
          empty_content_def get_default_def traceback_lines_def str_int_def
          upper_char_def lower_char_def)
  have e1: "sublist (ustr ''Error'') ?oute"
    by (simp add: sublist_code newline_def)
  have e2: "py_lower (ustr ''Error'') = (ustr ''error'')"
    by (simp add: py_lower_def lower_char_def)
  from e1 e2 have e: "\<exists>w. sublist w ?oute \<and> py_lower w = (ustr ''error'')"
    by (intro exI [of _ "(ustr ''Error'')"] conjI)
  have "map lower_char ?outs =
          (ustr ''status: ok'') @ [newline] @ (ustr ''  kernel status: idle'') @ [newline] @
          (ustr ''  execution count: 3'')"
    by (simp add: newline_def lower_char_def)
  then have s0: "\<not> sublist (ustr ''error'') (map lower_char ?outs)"
    by (simp add: sublist_code newline_def)
  have s: "\<not> (\<exists>w. sublist w ?outs \<and> py_lower w = (ustr ''error''))"
  proof
    assume "\<exists>w. sublist w ?outs \<and> py_lower w = (ustr ''error'')"
    then have "sublist (ustr ''error'') (map lower_char ?outs)"
      unfolding py_lower_def by (rule sublist_map_iff [THEN iffD2])
    with s0 show False by (rule notE)
  qed
  have ok: "sublist (ustr ''Status: ok'') ?outs"
    by (simp add: sublist_code)
  from clear_kernel_summary [OF he] obtain sme where
    x: "clear_kernel ?enve ?s = Some (sme @ [newline] @ (ustr ''Details:'') @ [newline] @ ?oute, ?s) \<and>
        (sme = success_summary \<or> sme = issues_summary) \<and>
        (sme = success_summary \<longleftrightarrow>
           sublist (ustr ''Status: ok'') ?oute \<and> \<not> (\<exists>w. sublist w ?oute \<and> py_lower w = (ustr ''error'')))" ..
  have "sme \<noteq> success_summary"
  proof
    assume "sme = success_summary"
    with x [THEN conjunct2, THEN conjunct2]
    have "sublist (ustr ''Status: ok'') ?oute \<and> \<not> (\<exists>w. sublist w ?oute \<and> py_lower w = (ustr ''error''))"
      by (rule iffD1)
    then have "\<not> (\<exists>w. sublist w ?oute \<and> py_lower w = (ustr ''error''))" by (rule conjunct2)
    then show False using e by (rule notE)
  qed
  with x [THEN conjunct2, THEN conjunct1] have sme: "sme = issues_summary"
    by simp
  from clear_kernel_summary [OF hs] obtain sms where
    y: "clear_kernel ?envs ?s = Some (sms @ [newline] @ (ustr ''Details:'') @ [newline] @ ?outs, ?s) \<and>
        (sms = success_summary \<or> sms = issues_summary) \<and>
        (sms = success_summary \<longleftrightarrow>
           sublist (ustr ''Status: ok'') ?outs \<and> \<not> (\<exists>w. sublist w ?outs \<and> py_lower w = (ustr ''error'')))" ..
  from ok s have "sublist (ustr ''Status: ok'') ?outs \<and> \<not> (\<exists>w. sublist w ?outs \<and> py_lower w = (ustr ''error''))"
    by (rule conjI)
  with y [THEN conjunct2, THEN conjunct2] have sms: "sms = success_summary" by (rule iffD2)
  from x have "clear_kernel ?enve ?s = Some (sme @ [newline] @ (ustr ''Details:'') @ [newline] @ ?oute, ?s)"
    by (rule conjunct1)
  moreover from y have "clear_kernel ?envs ?s = Some (sms @ [newline] @ (ustr ''Details:'') @ [newline] @ ?outs, ?s)"
    by (rule conjunct1)
  ultimately show ?thesis unfolding sme sms by (rule conjI)
qed

section \<open>The first line of the returned text\<close>

lemma send_command_dead:
  assumes "\<not> (kc_present env \<and> km_alive env)" and "send_command command env s = Some (t, s')"
  shows "t = (ustr ''Error: IPython kernel was not running. It has been restarted. Please try your command again.'') \<or>
         (\<exists>e. t = (ustr ''Error: IPython kernel not available and failed to restart: '') @ e)"
  using assms by (auto simp: send_command_def split: option.splits)

lemma first_line_Error: "\<not> status_first_line (0x45 # w)"
  by (simp add: status_first_line_def first_line_def newline_def ustr_def)

lemma matched_status_line:
  "matched_reply_status env = Some st \<Longrightarrow>
   status_line (execute_msg_id env) (shell_poll env) = (ustr ''Status: '') @ st"
  by (auto simp: matched_reply_status_def status_line_def shell_phase_def
           split: poll.splits if_splits)

lemma unmatched_status_line:
  "matched_reply_status env = None \<Longrightarrow>
   status_line (execute_msg_id env) (shell_poll env) \<in>
     {(ustr ''Status: error_shell_reply_exception''), (ustr ''Status: error_shell_reply_mismatch''),
      (ustr ''Status: error_shell_reply_timeout'')}"
  by (auto simp: matched_reply_status_def status_line_def shell_phase_def
           split: poll.splits if_splits)

lemma submitted_first_line:
  assumes "submitted env" and "send_command command env s = Some (t, s')"
  shows "first_line t = first_line (status_line (execute_msg_id env) (shell_poll env))"
proof -
  from send_command_submitted [OF assms] obtain lst :: loop_state where
    t: "t = py_join [newline]
                  (filter_none (shell_phase (execute_msg_id env) (outputs lst) (shell_poll env)))"
    by auto
  have ne: "status_line (execute_msg_id env) (shell_poll env) \<noteq> []"
    using status_line_prefix [of "execute_msg_id env" "shell_poll env"] by auto
  have "filter_none (shell_phase (execute_msg_id env) (outputs lst) (shell_poll env)) =
        status_line (execute_msg_id env) (shell_poll env) #
        filter_none (outputs lst @ reply_lines (execute_msg_id env) (shell_poll env))"
    using shell_phase_outs [of "execute_msg_id env" "outputs lst" "shell_poll env"] ne
    by (simp add: filter_none_def status_line_def reply_lines_def)
  then show ?thesis unfolding t by (simp add: first_line_join)
qed

text \<open>
  Claim C1, amended. Let \<open>send_command\<close> return the text \<open>t\<close>. When the request is
  submitted, the first line of \<open>t\<close> is \<open>Status: \<close> followed by the first line of the
  status of the reply for the request, and begins with \<open>Status: error_shell_reply_\<close>
  when no reply for the request with a status was retrieved; so it is exactly
  \<open>Status: ok\<close> or begins with \<open>Status: error\<close> whenever that status is \<open>ok\<close> or
  \<open>error\<close> or there is none. When the worker is not alive the text begins with
  \<open>Error: IPython kernel\<close>, and when the channels cannot be made ready again the text is
  \<open>Error: Failed to ensure kernel client readiness.\<close>
\<close>
theorem send_command_first_line:
  assumes "send_command command env s = Some (t, s')"
  shows "(submitted env \<and>
            (matched_reply_status env = None \<or> matched_reply_status env = Some (ustr ''ok'') \<or>
             matched_reply_status env = Some (ustr ''error'')) \<longrightarrow> status_first_line t) \<and>
         (submitted env \<and> matched_reply_status env = Some st \<longrightarrow>
            first_line t = (ustr ''Status: '') @ first_line st) \<and>
         (submitted env \<and> matched_reply_status env = None \<longrightarrow>
            prefix (ustr ''Status: error_shell_reply_'') (first_line t)) \<and>
         (\<not> (kc_present env \<and> km_alive env) \<longrightarrow>
            prefix (ustr ''Error: IPython kernel'') t \<and> \<not> status_first_line t) \<and>
         (kc_present env \<and> km_alive env \<and> \<not> submitted env \<longrightarrow>
            t = (ustr ''Error: Failed to ensure kernel client readiness.''))"
proof -
  have nl: "newline \<notin> set (ustr ''Status: '')" by (simp add: newline_def)
  have some: "first_line t = (ustr ''Status: '') @ first_line st'"
    if "submitted env" "matched_reply_status env = Some st'" for st'
    using submitted_first_line [OF that(1) assms] matched_status_line [OF that(2)]
          first_line_append [OF nl, of st']
    by simp
  have none: "prefix (ustr ''Status: error_shell_reply_'') (first_line t) \<and> status_first_line t"
    if "submitted env" "matched_reply_status env = None"
    using submitted_first_line [OF that(1) assms] unmatched_status_line [OF that(2)]
    by (auto simp: status_first_line_def first_line_def newline_def)
  have ok: "status_first_line t" if "submitted env" "matched_reply_status env = Some (ustr ''ok'')"
    using some [OF that] by (simp add: status_first_line_def first_line_def newline_def)
  have err: "status_first_line t" if "submitted env" "matched_reply_status env = Some (ustr ''error'')"
    using some [OF that] by (simp add: status_first_line_def first_line_def newline_def)
  have dead: "prefix (ustr ''Error: IPython kernel'') t \<and> \<not> status_first_line t"
    if "\<not> (kc_present env \<and> km_alive env)"
    using send_command_dead [OF that assms] by (auto simp: first_line_Error)
  have unready: "t = (ustr ''Error: Failed to ensure kernel client readiness.'')"
    if "kc_present env \<and> km_alive env \<and> \<not> submitted env"
    using that assms by (auto simp: send_command_def submitted_def Let_def)
  from some none ok err dead unready show ?thesis by blast
qed

theorem send_command_first_line_witness:
  "status_first_line
     ((ustr ''Status: ok'') @ [newline] @ (ustr ''  Kernel Status: busy'') @ [newline] @ (ustr ''  Stdout: hi'') @ [newline] @ (ustr ''  Kernel Status: idle'') @ [newline] @ (ustr ''  Execution Count: 3'')) \<and>
   first_line
     ((ustr ''Status: ok'') @ [newline] @ (ustr ''  Kernel Status: busy'') @ [newline] @ (ustr ''  Stdout: hi'') @ [newline] @ (ustr ''  Kernel Status: idle'') @ [newline] @ (ustr ''  Execution Count: 3'')) = (ustr ''Status: ok'') \<and>
   prefix (ustr ''Status: error_shell_reply_'')
     (first_line
        ((ustr ''Status: error_shell_reply_timeout'') @ [newline] @ (ustr ''  Kernel Status: idle'') @ [newline] @ (ustr ''Timeout waiting for shell reply from IPython kernel.''))) \<and>
   \<not> status_first_line
       (ustr ''Error: IPython kernel not available and failed to restart: Failed to connect to IPython kernel in time.'')"
proof -
  let ?env = "\<lparr>kc_present = True, km_alive = True, start_outcome = Started, channels_running = True,
      ready_after_channel_restart = True, execute_msg_id = (ustr ''m1''),
      iopub_passes = [(0.125, Received \<lparr>parent_msg_id = Some (ustr ''m1''), msg_type = (ustr ''status''), content = empty_content\<lparr>execution_state := Some (ustr ''busy'')\<rparr>\<rparr>),
         (0.25, Received \<lparr>parent_msg_id = Some (ustr ''m1''), msg_type = (ustr ''stream''), content = empty_content\<lparr>stream_name := Some (ustr ''stdout''), stream_text := Some (ustr ''hi'')\<rparr>\<rparr>),
         (0.375, Received \<lparr>parent_msg_id = Some (ustr ''m1''), msg_type = (ustr ''status''), content = empty_content\<lparr>execution_state := Some (ustr ''idle'')\<rparr>\<rparr>),
         (0.875, Queue_Empty)],
      shell_poll = Received \<lparr>parent_msg_id = Some (ustr ''m1''), msg_type = (ustr ''execute_reply''), content = empty_content\<lparr>status := Some (ustr ''ok''), execution_count := Some 3\<rparr>\<rparr>\<rparr>"
  let ?envt = "\<lparr>kc_present = True, km_alive = True, start_outcome = Started, channels_running = True,
      ready_after_channel_restart = True, execute_msg_id = (ustr ''m1''),
      iopub_passes = [(0.375, Received \<lparr>parent_msg_id = Some (ustr ''m1''), msg_type = (ustr ''status''), content = empty_content\<lparr>execution_state := Some (ustr ''idle'')\<rparr>\<rparr>),
         (0.875, Queue_Empty)],
      shell_poll = Queue_Empty\<rparr>"
  let ?envd = "\<lparr>kc_present = True, km_alive = False, start_outcome = Ready_Timeout, channels_running = True,
      ready_after_channel_restart = True, execute_msg_id = (ustr ''m1''),
      iopub_passes = [(0.125, Received \<lparr>parent_msg_id = Some (ustr ''m1''), msg_type = (ustr ''status''), content = empty_content\<lparr>execution_state := Some (ustr ''busy'')\<rparr>\<rparr>),
         (0.25, Received \<lparr>parent_msg_id = Some (ustr ''m1''), msg_type = (ustr ''stream''), content = empty_content\<lparr>stream_name := Some (ustr ''stdout''), stream_text := Some (ustr ''hi'')\<rparr>\<rparr>),
         (0.375, Received \<lparr>parent_msg_id = Some (ustr ''m1''), msg_type = (ustr ''status''), content = empty_content\<lparr>execution_state := Some (ustr ''idle'')\<rparr>\<rparr>),
         (0.875, Queue_Empty)],
      shell_poll = Received \<lparr>parent_msg_id = Some (ustr ''m1''), msg_type = (ustr ''execute_reply''), content = empty_content\<lparr>status := Some (ustr ''ok''), execution_count := Some 3\<rparr>\<rparr>\<rparr>"
  let ?s = "\<lparr>has_history_manager = True, history = \<lparr>opens = True, write_ok = (\<lambda>t. True), contents = (ustr ''# h'')\<rparr>\<rparr>"
  let ?s' = "\<lparr>has_history_manager = True, history = \<lparr>opens = True, write_ok = (\<lambda>t. True), contents = (ustr ''# hx = 1'') @ [newline]\<rparr>\<rparr>"
  have h: "send_command (ustr ''x = 1'') ?env ?s =
           Some ((ustr ''Status: ok'') @ [newline] @ (ustr ''  Kernel Status: busy'') @ [newline] @ (ustr ''  Stdout: hi'') @ [newline] @ (ustr ''  Kernel Status: idle'') @ [newline] @ (ustr ''  Execution Count: 3''), ?s')"
    by (simp add: send_command_def Let_def init_history_manager_def save_command_def
          py_startswith_def py_strip_def is_space_def iopub_step_def iopub_timeout_duration_def
          process_iopub_def append_outputs_def initial_state_def shell_phase_def filter_none_def
          empty_content_def get_default_def traceback_lines_def str_int_def
          upper_char_def lower_char_def)
  have ht: "send_command (ustr ''x = 1'') ?envt ?s =
           Some ((ustr ''Status: error_shell_reply_timeout'') @ [newline] @ (ustr ''  Kernel Status: idle'') @ [newline] @ (ustr ''Timeout waiting for shell reply from IPython kernel.''), ?s')"
    by (simp add: send_command_def Let_def init_history_manager_def save_command_def
          py_startswith_def py_strip_def is_space_def iopub_step_def iopub_timeout_duration_def
          process_iopub_def append_outputs_def initial_state_def shell_phase_def filter_none_def
          empty_content_def get_default_def traceback_lines_def str_int_def
          upper_char_def lower_char_def)
  have hd: "send_command (ustr ''x = 1'') ?envd ?s =
           Some ((ustr ''Error: IPython kernel not available and failed to restart: Failed to connect to IPython kernel in time.''), ?s)"
    by (simp add: send_command_def start_ipython_kernel_def)
  have e: "submitted ?env \<and> matched_reply_status ?env = Some (ustr ''ok'')"
    by (simp add: submitted_def matched_reply_status_def empty_content_def)
  have et: "submitted ?envt \<and> matched_reply_status ?envt = None"
    by (simp add: submitted_def matched_reply_status_def)
  have ed: "\<not> (kc_present ?envd \<and> km_alive ?envd)"
    by simp
  from send_command_first_line [OF h, of "(ustr ''ok'')"] e
  have 1: "status_first_line
     ((ustr ''Status: ok'') @ [newline] @ (ustr ''  Kernel Status: busy'') @ [newline] @ (ustr ''  Stdout: hi'') @ [newline] @ (ustr ''  Kernel Status: idle'') @ [newline] @ (ustr ''  Execution Count: 3'')) \<and>
   first_line
     ((ustr ''Status: ok'') @ [newline] @ (ustr ''  Kernel Status: busy'') @ [newline] @ (ustr ''  Stdout: hi'') @ [newline] @ (ustr ''  Kernel Status: idle'') @ [newline] @ (ustr ''  Execution Count: 3'')) = (ustr ''Status: ok'')"
    by (simp add: first_line_def newline_def)
  from send_command_first_line [OF ht, of "(ustr ''ok'')"] et
  have 2: "prefix (ustr ''Status: error_shell_reply_'')
     (first_line
        ((ustr ''Status: error_shell_reply_timeout'') @ [newline] @ (ustr ''  Kernel Status: idle'') @ [newline] @ (ustr ''Timeout waiting for shell reply from IPython kernel.'')))"
    by simp
  from send_command_first_line [OF hd, of "(ustr ''ok'')"] ed
  have 3: "\<not> status_first_line
       (ustr ''Error: IPython kernel not available and failed to restart: Failed to connect to IPython kernel in time.'')"
    by simp
  from 1 2 3 show ?thesis by simp
qed

text \<open>
  The claim C1 as first stated fails: with a dead worker and a successful restart the
  text begins with \<open>Error:\<close>, and a reply with status \<open>aborted\<close> gives the first line
  \<open>Status: aborted\<close>.
\<close>
theorem send_command_first_line_counterexample:
  "send_command (ustr ''1 + 1'')
     \<lparr>kc_present = True, km_alive = False, start_outcome = Started, channels_running = True,
      ready_after_channel_restart = True, execute_msg_id = (ustr ''m1''),
      iopub_passes = [], shell_poll = Queue_Empty\<rparr>
     \<lparr>has_history_manager = True, history = \<lparr>opens = True, write_ok = (\<lambda>t. True), contents = (ustr ''# h'')\<rparr>\<rparr> =
   Some ((ustr ''Error: IPython kernel was not running. It has been restarted. Please try your command again.''),
         \<lparr>has_history_manager = True, history = \<lparr>opens = True, write_ok = (\<lambda>t. True), contents = (ustr ''# h'')\<rparr>\<rparr>) \<and>
   \<not> status_first_line
       (ustr ''Error: IPython kernel was not running. It has been restarted. Please try your command again.'') \<and>
   send_command (ustr ''1 + 1'')
     \<lparr>kc_present = True, km_alive = True, start_outcome = Started, channels_running = True,
      ready_after_channel_restart = True, execute_msg_id = (ustr ''m1''),
      iopub_passes = [(11, Queue_Empty)],
      shell_poll = Received \<lparr>parent_msg_id = Some (ustr ''m1''), msg_type = (ustr ''execute_reply''),
                              content = empty_content\<lparr>status := Some (ustr ''aborted'')\<rparr>\<rparr>\<rparr>
     \<lparr>has_history_manager = True, history = \<lparr>opens = True, write_ok = (\<lambda>t. True), contents = (ustr ''# h'')\<rparr>\<rparr> =
   Some ((ustr ''Status: aborted'') @ [newline] @ timeout_marker,
         \<lparr>has_history_manager = True,
          history = \<lparr>opens = True, write_ok = (\<lambda>t. True), contents = (ustr ''# h1 + 1'') @ [newline]\<rparr>\<rparr>) \<and>
   \<not> status_first_line ((ustr ''Status: aborted'') @ [newline] @ timeout_marker)"
proof (intro conjI)
  show "send_command (ustr ''1 + 1'')
     \<lparr>kc_present = True, km_alive = False, start_outcome = Started, channels_running = True,
      ready_after_channel_restart = True, execute_msg_id = (ustr ''m1''),
      iopub_passes = [], shell_poll = Queue_Empty\<rparr>
     \<lparr>has_history_manager = True, history = \<lparr>opens = True, write_ok = (\<lambda>t. True), contents = (ustr ''# h'')\<rparr>\<rparr> =
   Some ((ustr ''Error: IPython kernel was not running. It has been restarted. Please try your command again.''),
         \<lparr>has_history_manager = True, history = \<lparr>opens = True, write_ok = (\<lambda>t. True), contents = (ustr ''# h'')\<rparr>\<rparr>)"
    by (simp add: send_command_def start_ipython_kernel_def)
  show "\<not> status_first_line
       (ustr ''Error: IPython kernel was not running. It has been restarted. Please try your command again.'')"
    by (simp add: first_line_Error)
  show "send_command (ustr ''1 + 1'')
     \<lparr>kc_present = True, km_alive = True, start_outcome = Started, channels_running = True,
      ready_after_channel_restart = True, execute_msg_id = (ustr ''m1''),
      iopub_passes = [(11, Queue_Empty)],
      shell_poll = Received \<lparr>parent_msg_id = Some (ustr ''m1''), msg_type = (ustr ''execute_reply''),
                              content = empty_content\<lparr>status := Some (ustr ''aborted'')\<rparr>\<rparr>\<rparr>
     \<lparr>has_history_manager = True, history = \<lparr>opens = True, write_ok = (\<lambda>t. True), contents = (ustr ''# h'')\<rparr>\<rparr> =
   Some ((ustr ''Status: aborted'') @ [newline] @ timeout_marker,
         \<lparr>has_history_manager = True,
          history = \<lparr>opens = True, write_ok = (\<lambda>t. True), contents = (ustr ''# h1 + 1'') @ [newline]\<rparr>\<rparr>)"
    by (simp add: send_command_def Let_def init_history_manager_def save_command_def
          py_startswith_def py_strip_def is_space_def iopub_step_def iopub_timeout_duration_def
          append_outputs_def initial_state_def shell_phase_def filter_none_def timeout_marker_def
          empty_content_def)
  show "\<not> status_first_line ((ustr ''Status: aborted'') @ [newline] @ timeout_marker)"
    by (simp add: status_first_line_def first_line_def newline_def)
qed

end
